theory Spec2Isabelle
  imports Complex_Main "HOL-Library.Sublist" "HOL-Library.Multiset"
begin

section \<open>JavaScript values\<close>

subsection \<open>Strings\<close>

text \<open>
  A JavaScript string is a sequence of UTF-16 code units: \<open>slice\<close>, \<open>length\<close> and a regular
  expression without the \<open>u\<close> flag all count code units. Text of the source that is not
  ASCII is written out below as its code units; ASCII text is written with \<open>js\<close>.
\<close>

type_synonym jstring = "nat list"

definition js :: "string \<Rightarrow> jstring" where
  "js s = map of_char s"

text \<open>
  The class \<open>\s\<close> of a JavaScript regular expression, which is also the white space that
  \<open>parseFloat\<close> skips: TAB, LF, VT, FF, CR, space, NBSP, U+1680, U+2000..U+200A, U+2028,
  U+2029, U+202F, U+205F, U+3000 and U+FEFF.
\<close>

definition isSpace :: "nat \<Rightarrow> bool" where
  "isSpace c \<longleftrightarrow>
     c \<in> {9, 10, 11, 12, 13, 32, 160, 5760, 8232, 8233, 8239, 8287, 12288, 65279}
     \<or> (8192 \<le> c \<and> c \<le> 8202)"

text \<open>\<open>String.prototype.includes\<close>: some suffix of the text starts with the searched text.\<close>

fun includes_js :: "jstring \<Rightarrow> jstring \<Rightarrow> bool" where
  "includes_js [] sub = (sub = [])"
| "includes_js (c # cs) sub = (prefix sub (c # cs) \<or> includes_js cs sub)"

text \<open>\<open>Array.prototype.join\<close> on an array of strings.\<close>

fun join :: "jstring \<Rightarrow> jstring list \<Rightarrow> jstring" where
  "join sep [] = []"
| "join sep [x] = x"
| "join sep (x # y # ys) = x @ sep @ join sep (y # ys)"

subsection \<open>Numbers\<close>

text \<open>
  A Number is a double, an infinity or NaN. A double is modelled by its exact value, which
  is a rational; a numeric literal of the source stands for the double nearest to it, and
  is written below as that double's exact value where the two differ. Rounding a decimal
  value to the nearest double is the runtime's work and is a parameter of the model.
\<close>

datatype jsnum = NaN | NegInf | Fin rat | PosInf

fun num_le :: "jsnum \<Rightarrow> jsnum \<Rightarrow> bool" where
  "num_le NaN _ = False"
| "num_le _ NaN = False"
| "num_le NegInf _ = True"
| "num_le _ PosInf = True"
| "num_le (Fin a) (Fin b) = (a \<le> b)"
| "num_le _ _ = False"

text \<open>\<open>Math.min\<close> and \<open>Math.max\<close> of two arguments: NaN if either is NaN.\<close>

definition math_min :: "jsnum \<Rightarrow> jsnum \<Rightarrow> jsnum" where
  "math_min a b = (if a = NaN \<or> b = NaN then NaN else if num_le a b then a else b)"

definition math_max :: "jsnum \<Rightarrow> jsnum \<Rightarrow> jsnum" where
  "math_max a b = (if a = NaN \<or> b = NaN then NaN else if num_le a b then b else a)"

subsection \<open>JSON values\<close>

text \<open>
  What \<open>JSON.parse\<close> returns, and what a request body or a stored file holds. A
  number of a JSON text too large for a double is parsed to an infinity. An object is the
  list of its own properties; reading a property takes the first entry with that key. A
  property that is absent reads as \<open>undefined\<close>, which is \<open>None\<close> below.
\<close>

datatype jsval =
    JNull
  | JBool bool
  | JNum jsnum
  | JStr jstring
  | JArr "jsval list"
  | JObj "(jstring \<times> jsval) list"

type_synonym jsobject = "(jstring \<times> jsval) list"

datatype jsError = Error jstring | TypeError | SyntaxError

text \<open>
  What the runtime supplies and the model takes as parameters: \<open>JSON.parse\<close> (\<open>None\<close>
  where it throws a SyntaxError), the text of a finite Number, and the rounding of a
  decimal value to a Number, which gives an infinity on overflow.
\<close>

record runtime =
  JSON_parse :: "jstring \<Rightarrow> jsval option"
  numberToString :: "rat \<Rightarrow> jstring"
  round64 :: "rat \<Rightarrow> jsnum"

definition get :: "jsobject \<Rightarrow> jstring \<Rightarrow> jsval option" where
  "get obj key = map_of obj key"

text \<open>
  Reading a property of a value that is not \<open>null\<close>. Strings, numbers, booleans and
  arrays have none of the properties the interpreter reads (they are not names of the
  built-in prototypes), so the read gives \<open>undefined\<close>. Reading a property of \<open>null\<close>
  throws a TypeError; the functions that read write that case out.
\<close>

fun getProp :: "jsval \<Rightarrow> jstring \<Rightarrow> jsval option" where
  "getProp (JObj kvs) key = map_of kvs key"
| "getProp _ _ = None"

text \<open>Truthiness, as \<open>||\<close> tests it, and \<open>a || b\<close> itself.\<close>

fun truthy :: "jsval option \<Rightarrow> bool" where
  "truthy None = False"
| "truthy (Some JNull) = False"
| "truthy (Some (JBool b)) = b"
| "truthy (Some (JNum n)) = (n \<noteq> Fin 0 \<and> n \<noteq> NaN)"
| "truthy (Some (JStr s)) = (s \<noteq> [])"
| "truthy (Some (JArr _)) = True"
| "truthy (Some (JObj _)) = True"

definition orElse :: "jsval option \<Rightarrow> jsval option \<Rightarrow> jsval option" where
  "orElse a b = (if truthy a then a else b)"

text \<open>
  \<open>a === b\<close> between a stored or parsed value and a value of the request: primitives are
  compared by value; an object or an array is equal only to itself, and the two sides
  here never are the same object.
\<close>

fun strictEq :: "jsval \<Rightarrow> jsval \<Rightarrow> bool" where
  "strictEq JNull JNull = True"
| "strictEq (JBool a) (JBool b) = (a = b)"
| "strictEq (JNum a) (JNum b) = (a = b \<and> a \<noteq> NaN)"
| "strictEq (JStr a) (JStr b) = (a = b)"
| "strictEq _ _ = False"

subsection \<open>Conversion to text\<close>

text \<open>
  \<open>ToString\<close>, which a template literal, \<open>join\<close> and \<open>parseFloat\<close> apply. An object that
  comes from JSON converts through \<open>Object.prototype.toString\<close>, unless it has an own
  property named \<open>toString\<close>: that property is not callable, \<open>valueOf\<close> does not give a
  primitive either, and the conversion throws a TypeError. An array converts through
  \<open>join\<close>, which converts every element, \<open>null\<close> to the empty text.
\<close>

fun convertible :: "jsval \<Rightarrow> bool" where
  "convertible (JObj kvs) = (map_of kvs (js ''toString'') = None)"
| "convertible (JArr xs) = list_all convertible xs"
| "convertible _ = True"

fun toText :: "runtime \<Rightarrow> jsval \<Rightarrow> jstring" where
  "toText rt JNull = js ''null''"
| "toText rt (JBool b) = (if b then js ''true'' else js ''false'')"
| "toText rt (JNum n) =
     (case n of
        NaN \<Rightarrow> js ''NaN''
      | NegInf \<Rightarrow> js ''-Infinity''
      | Fin x \<Rightarrow> numberToString rt x
      | PosInf \<Rightarrow> js ''Infinity'')"
| "toText rt (JStr s) = s"
| "toText rt (JObj kvs) = js ''[object Object]''"
| "toText rt (JArr xs) =
     join (js '','') (map (\<lambda>x. if x = JNull then [] else toText rt x) xs)"

definition toStr :: "runtime \<Rightarrow> jsval \<Rightarrow> jsError + jstring" where
  "toStr rt v = (if convertible v then Inr (toText rt v) else Inl TypeError)"

text \<open>An expression inside a template literal; \<open>undefined\<close> is written "undefined".\<close>

definition interp :: "runtime \<Rightarrow> jsval option \<Rightarrow> jsError + jstring" where
  "interp rt v = (case v of None \<Rightarrow> Inr (js ''undefined'') | Some x \<Rightarrow> toStr rt x)"

text \<open>
  A template literal: its parts are evaluated from left to right, the first conversion
  that throws ends the evaluation, and otherwise the texts are put together.
\<close>

fun template :: "(jsError + jstring) list \<Rightarrow> jsError + jstring" where
  "template [] = Inr []"
| "template (p # ps) =
     (case p of
        Inl e \<Rightarrow> Inl e
      | Inr s \<Rightarrow> (case template ps of Inl e \<Rightarrow> Inl e | Inr t \<Rightarrow> Inr (s @ t)))"

text \<open>\<open>xs.join(sep)\<close> on an array of any values.\<close>

definition joinArray :: "runtime \<Rightarrow> jstring \<Rightarrow> jsval list \<Rightarrow> jsError + jstring" where
  "joinArray rt sep xs =
     (if list_all convertible xs
      then Inr (join sep (map (\<lambda>x. if x = JNull then [] else toText rt x) xs))
      else Inl TypeError)"

subsection \<open>parseFloat\<close>

text \<open>
  \<open>parseFloat\<close> on a text skips leading white space and reads the longest prefix that is
  a StrDecimalLiteral: an optional sign, then \<open>Infinity\<close> or decimal digits with an optional
  fraction and an optional exponent. The value read is rounded to a Number by the runtime.
  No such prefix gives NaN.
\<close>

definition isDigit :: "nat \<Rightarrow> bool" where
  "isDigit c \<longleftrightarrow> 48 \<le> c \<and> c \<le> 57"

definition digitsVal :: "jstring \<Rightarrow> nat" where
  "digitsVal ds = foldl (\<lambda>a c. 10 * a + (c - 48)) 0 ds"

definition exponentPart :: "jstring \<Rightarrow> int" where
  "exponentPart r =
     (case r of
        [] \<Rightarrow> 0
      | c # r1 \<Rightarrow>
          if c = 101 \<or> c = 69 then
            (case r1 of
               [] \<Rightarrow> 0
             | s # r2 \<Rightarrow>
                 if s = 43 then int (digitsVal (takeWhile isDigit r2))
                 else if s = 45 then - int (digitsVal (takeWhile isDigit r2))
                 else int (digitsVal (takeWhile isDigit r1)))
          else 0)"

definition scale10 :: "rat \<Rightarrow> int \<Rightarrow> rat" where
  "scale10 m e = (if 0 \<le> e then m * 10 ^ nat e else m / 10 ^ nat (- e))"

definition unsignedLiteral :: "runtime \<Rightarrow> jstring \<Rightarrow> jsnum" where
  "unsignedLiteral rt u =
     (if prefix (js ''Infinity'') u then PosInf
      else
        (let ip = takeWhile isDigit u;
             r1 = dropWhile isDigit u;
             fp = (case r1 of [] \<Rightarrow> [] | c # r \<Rightarrow> if c = 46 then takeWhile isDigit r else []);
             r2 = (case r1 of [] \<Rightarrow> [] | c # r \<Rightarrow> if c = 46 then dropWhile isDigit r else r1)
         in if ip = [] \<and> fp = [] then NaN
            else round64 rt (scale10 (of_nat (digitsVal (ip @ fp)) / 10 ^ length fp)
                              (exponentPart r2))))"

definition negate :: "jsnum \<Rightarrow> jsnum" where
  "negate n = (case n of NaN \<Rightarrow> NaN | NegInf \<Rightarrow> PosInf | Fin x \<Rightarrow> Fin (- x) | PosInf \<Rightarrow> NegInf)"

definition parseFloatStr :: "runtime \<Rightarrow> jstring \<Rightarrow> jsnum" where
  "parseFloatStr rt s =
     (case dropWhile isSpace s of
        [] \<Rightarrow> NaN
      | c # r \<Rightarrow>
          if c = 43 then unsignedLiteral rt r
          else if c = 45 then negate (unsignedLiteral rt r)
          else unsignedLiteral rt (c # r))"

text \<open>
  \<open>parseFloat\<close> on any value converts it to text first, which may throw, and reads the
  text. \<open>numberRead\<close> is what is read from the text of a value that converts: the texts of
  \<open>null\<close>, of a boolean and of an object start with no literal; the text of a Number is
  a literal that reads back as the same Number; the text of an array is its elements'
  texts joined with commas, and a comma is part of no literal, so what is read is what
  is read from the first element (nothing, when that is \<open>null\<close>).
\<close>

fun numberRead :: "runtime \<Rightarrow> jsval \<Rightarrow> jsnum" where
  "numberRead rt JNull = NaN"
| "numberRead rt (JBool _) = NaN"
| "numberRead rt (JNum n) = n"
| "numberRead rt (JStr s) = parseFloatStr rt s"
| "numberRead rt (JObj _) = NaN"
| "numberRead rt (JArr []) = NaN"
| "numberRead rt (JArr (v # _)) = numberRead rt v"

definition parseFloat :: "runtime \<Rightarrow> jsval option \<Rightarrow> jsError + jsnum" where
  "parseFloat rt v =
     (case v of
        None \<Rightarrow> Inr NaN
      | Some x \<Rightarrow> if convertible x then Inr (numberRead rt x) else Inl TypeError)"

section \<open>Subjects\<close>

text \<open>
  An employee or a team is a JSON object: the data service stores what the routes hand
  it, and the create and update routes hand it the request body, so a field may be absent
  and a field that is present may hold any JSON value.
\<close>

definition spread :: "jsobject \<Rightarrow> jsobject \<Rightarrow> jsobject" where
  \<comment> \<open>\<open>{...a, ...b}\<close>: a property of \<open>b\<close> replaces the one of \<open>a\<close>\<close>
  "spread a b = b @ a"

definition setProp :: "jstring \<Rightarrow> jsval option \<Rightarrow> jsobject \<Rightarrow> jsobject" where
  \<comment> \<open>\<open>{...obj, key: v}\<close>; a property set to \<open>undefined\<close> reads as \<open>undefined\<close>\<close>
  "setProp key v obj =
     (case v of
        Some x \<Rightarrow> (key, x) # obj
      | None \<Rightarrow> filter (\<lambda>p. fst p \<noteq> key) obj)"

section \<open>The prompt compiler\<close>

subsection \<open>Template text\<close>

definition emp_t0 :: jstring where
  \<comment> \<open>buildEmployeePrompt, template text 0\<close>
  "emp_t0 = [35531, 20998, 26512, 20197, 19979, 21729, 24037, 30340, 35443, 32048, 36039,
     26009, 65306, 10, 10, 22522, 26412, 36039, 35338, 65306, 10, 45, 32, 22995, 21517, 65306]"

definition emp_t1 :: jstring where
  \<comment> \<open>buildEmployeePrompt, template text 1\<close>
  "emp_t1 = [10, 45, 32, 32887, 20301, 65306]"

definition emp_t2 :: jstring where
  \<comment> \<open>buildEmployeePrompt, template text 2\<close>
  "emp_t2 = [10, 45, 32, 37096, 38272, 65306]"

definition emp_t3 :: jstring where
  \<comment> \<open>buildEmployeePrompt, template text 3\<close>
  "emp_t3 = [10, 45, 32, 24037, 20316, 24180, 36039, 65306]"

definition emp_t4 :: jstring where
  \<comment> \<open>buildEmployeePrompt, template text 4\<close>
  "emp_t4 = [24180, 10, 45, 32, 20837, 32887, 26085, 26399, 65306]"

definition emp_t5 :: jstring where
  \<comment> \<open>buildEmployeePrompt, template text 5\<close>
  "emp_t5 = [10, 10, 25216, 33021, 33287, 33021, 21147, 65306, 10, 45, 32, 26680, 24515, 25216,
     33021, 65306]"

definition emp_t6 :: jstring where
  \<comment> \<open>buildEmployeePrompt, template text 6\<close>
  "emp_t6 = [10, 45, 32, 23560, 26989, 38936, 22495, 65306]"

definition emp_t7 :: jstring where
  \<comment> \<open>buildEmployeePrompt, template text 7\<close>
  "emp_t7 = [10, 10, 32318, 25928, 34920, 29694, 65306, 10, 45, 32, 36817, 26399, 34920, 29694,
     65306]"

definition emp_t8 :: jstring where
  \<comment> \<open>buildEmployeePrompt, template text 8\<close>
  "emp_t8 = [10, 45, 32, 22296, 38538, 21453, 39243, 65306]"

definition emp_t9 :: jstring where
  \<comment> \<open>buildEmployeePrompt, template text 9\<close>
  "emp_t9 = [10, 45, 32, 38917, 30446, 36002, 29563, 65306]"

definition emp_t10 :: jstring where
  \<comment> \<open>buildEmployeePrompt, template text 10\<close>
  "emp_t10 = [10, 10, 20998, 26512, 39006, 22411, 65306]"

definition emp_t11 :: jstring where
  \<comment> \<open>buildEmployeePrompt, template text 11\<close>
  "emp_t11 = [10, 26178, 38291, 31684, 22285, 65306]"

definition emp_t12 :: jstring where
  \<comment> \<open>buildEmployeePrompt, template text 12\<close>
  "emp_t12 = [10, 10, 35531, 25552, 20379, 20840, 38754, 30340, 21729, 24037, 20998, 26512,
     65292, 21253, 25324, 32318, 25928, 35413, 20272, 12289, 30332, 23637, 28507, 21147, 12289,
     25216, 33021, 24375, 24369, 38917, 20998, 26512, 65292, 20197, 21450, 20855, 39636, 30340,
     30332, 23637, 24314, 35696, 21644, 39080, 38570, 35413, 20272, 12290]"

definition d_notProvided :: jstring where
  \<comment> \<open>default in employee.experience || '...'\<close>
  "d_notProvided = [26410, 25552, 20379]"

definition d_recentPerformance :: jstring where
  \<comment> \<open>default in employee.recentPerformance || '...'\<close>
  "d_recentPerformance = [31337, 23450, 34920, 29694, 65292, 25345, 32396, 25104, 38263]"

definition d_feedback :: jstring where
  \<comment> \<open>default in employee.feedback || '...'\<close>
  "d_feedback = [31309, 26997, 21443, 33287, 65292, 21332, 20316, 33391, 22909]"

definition d_projectContribution :: jstring where
  \<comment> \<open>default in employee.projectContribution || '...'\<close>
  "d_projectContribution = [25353, 26178, 23436, 25104, 20219, 21209, 65292, 21697, 36074,
     33391, 22909]"

definition d_analysisType :: jstring where
  \<comment> \<open>default in employee.analysisType || '...'\<close>
  "d_analysisType = [32156, 21512, 20998, 26512]"

definition d_timeRange :: jstring where
  \<comment> \<open>default in employee.timeRange || '...'\<close>
  "d_timeRange = [36817, 54, 20491, 26376]"






























definition employeeSystemPromptText :: jstring where
  \<comment> \<open>getEmployeeSystemPrompt, lines 100-120\<close>
  "employeeSystemPromptText = [20320, 26159, 19968, 20301, 23560, 26989, 30340, 72, 82, 20998,
     26512, 23560, 23478, 65292, 20855, 20633, 20197, 19979, 23560, 38263, 65306, 10, 49, 46,
     32, 21729, 24037, 32318, 25928, 35413, 20272, 33287, 20998, 26512, 10, 50, 46, 32, 32887,
     28079, 30332, 23637, 35215, 21123, 10, 51, 46, 32, 25216, 33021, 35413, 20272, 33287,
     22521, 35347, 24314, 35696, 10, 52, 46, 32, 20154, 25165, 20445, 30041, 31574, 30053, 10,
     10, 35531, 22522, 26044, 25552, 20379, 30340, 21729, 24037, 36039, 26009, 65292, 36914,
     34892, 28145, 24230, 20998, 26512, 20006, 25552, 20379, 23560, 26989, 24314, 35696, 12290,
     10, 22238, 25033, 24517, 38920, 26159, 26377, 25928, 30340, 74, 83, 79, 78, 26684, 24335,
     65292, 21253, 21547, 20197, 19979, 32080, 27083, 65306, 10, 123, 10, 32, 32, 34, 111, 118,
     101, 114, 97, 108, 108, 83, 99, 111, 114, 101, 34, 58, 32, 25976, 23383, 40, 49, 45, 49,
     48, 41, 44, 10, 32, 32, 34, 112, 101, 114, 102, 111, 114, 109, 97, 110, 99, 101, 83, 99,
     111, 114, 101, 34, 58, 32, 25976, 23383, 40, 49, 45, 49, 48, 41, 44, 10, 32, 32, 34, 115,
     107, 105, 108, 108, 115, 83, 99, 111, 114, 101, 34, 58, 32, 25976, 23383, 40, 49, 45, 49,
     48, 41, 44, 10, 32, 32, 34, 112, 111, 116, 101, 110, 116, 105, 97, 108, 83, 99, 111, 114,
     101, 34, 58, 32, 25976, 23383, 40, 49, 45, 49, 48, 41, 44, 10, 32, 32, 34, 115, 116, 114,
     101, 110, 103, 116, 104, 115, 34, 58, 32, 91, 23383, 20018, 25976, 32068, 93, 44, 10, 32,
     32, 34, 105, 109, 112, 114, 111, 118, 101, 109, 101, 110, 116, 115, 34, 58, 32, 91, 23383,
     20018, 25976, 32068, 93, 44, 10, 32, 32, 34, 100, 101, 118, 101, 108, 111, 112, 109, 101,
     110, 116, 80, 108, 97, 110, 34, 58, 32, 34, 23383, 20018, 34, 44, 10, 32, 32, 34, 114,
     105, 115, 107, 65, 115, 115, 101, 115, 115, 109, 101, 110, 116, 34, 58, 32, 34, 23383,
     20018, 34, 44, 10, 32, 32, 34, 99, 97, 114, 101, 101, 114, 80, 97, 116, 104, 34, 58, 32,
     34, 23383, 20018, 34, 10, 125, 10, 10, 30906, 20445, 20998, 26512, 23458, 35264, 12289,
     23560, 26989, 19988, 20855, 26377, 24314, 35373, 24615, 12290]"

subsection \<open>buildEmployeePrompt\<close>

definition buildEmployeePrompt :: "runtime \<Rightarrow> jsobject \<Rightarrow> jsError + jstring" where
  "buildEmployeePrompt rt employee =
     template
       [Inr emp_t0, interp rt (get employee (js ''name'')),
        Inr emp_t1, interp rt (get employee (js ''position'')),
        Inr emp_t2, interp rt (get employee (js ''department'')),
        Inr emp_t3,
        interp rt (orElse (get employee (js ''experience'')) (Some (JStr d_notProvided))),
        Inr emp_t4,
        interp rt (orElse (get employee (js ''joinDate'')) (Some (JStr d_notProvided))),
        Inr emp_t5,
        (case get employee (js ''skills'') of
           Some (JArr xs) \<Rightarrow> joinArray rt (js '', '') xs
         | _ \<Rightarrow> Inr d_notProvided),
        Inr emp_t6,
        interp rt (orElse (get employee (js ''specialization'')) (get employee (js ''position''))),
        Inr emp_t7,
        interp rt (orElse (get employee (js ''recentPerformance''))
                     (Some (JStr d_recentPerformance))),
        Inr emp_t8,
        interp rt (orElse (get employee (js ''feedback'')) (Some (JStr d_feedback))),
        Inr emp_t9,
        interp rt (orElse (get employee (js ''projectContribution''))
                     (Some (JStr d_projectContribution))),
        Inr emp_t10,
        interp rt (orElse (get employee (js ''analysisType'')) (Some (JStr d_analysisType))),
        Inr emp_t11,
        interp rt (orElse (get employee (js ''timeRange'')) (Some (JStr d_timeRange))),
        Inr emp_t12]"

subsection \<open>buildTeamPrompt\<close>






section \<open>The response interpreter: extraction\<close>

text \<open>
  \<open>extractJSON\<close> (services/openaiService.js) applies two regular expressions with
  \<open>String.prototype.match\<close>. A match is searched at each start position from the left; at a
  start position the greedy \<open>[\s\S]*\<close> takes the longest run of code units after which the
  rest of the pattern still matches.

  \<open>lastClose k s\<close> is that greedy choice for \<open>[\s\S]*\}\<close> followed by a pattern that
  matches a prefix of exactly the texts accepted by \<open>k\<close>: the number of code units before the
  last closing brace of \<open>s\<close> whose rest is accepted by \<open>k\<close>.
\<close>

definition fence :: jstring where
  "fence = [96, 96, 96]"

definition lbrace :: nat where
  "lbrace = 123"

definition rbrace :: nat where
  "rbrace = 125"

fun lastClose :: "(jstring \<Rightarrow> bool) \<Rightarrow> jstring \<Rightarrow> nat option" where
  "lastClose k [] = None"
| "lastClose k (c # cs) =
     (case lastClose k cs of
        Some n \<Rightarrow> Some (Suc n)
      | None \<Rightarrow> if c = rbrace \<and> k cs then Some 0 else None)"

text \<open>The rest of the first pattern after the group: \<open>\s*```\<close>.\<close>

definition closesFence :: "jstring \<Rightarrow> bool" where
  "closesFence s = prefix fence (dropWhile isSpace s)"

text \<open>
  \<open>\{[\s\S]*\}\<close> followed by \<open>k\<close>, tried at the start of \<open>s\<close>; the result is the text
  matched by \<open>\{[\s\S]*\}\<close>.
\<close>

definition objectAt :: "(jstring \<Rightarrow> bool) \<Rightarrow> jstring \<Rightarrow> jstring option" where
  "objectAt k s =
     (case s of
        [] \<Rightarrow> None
      | c # body \<Rightarrow>
          if c = lbrace then
            (case lastClose k body of
               Some n \<Rightarrow> Some (c # take (Suc n) body)
             | None \<Rightarrow> None)
          else None)"

text \<open>
  The first pattern, \<open>```(?:json)?\s*(\{[\s\S]*\})\s*```\<close>, tried at the start of \<open>s\<close>;
  the result is group 1. Giving up the optional \<open>json\<close> or some of the white space never
  helps, because the next code unit has to be the opening brace.
\<close>

definition fenceAt :: "jstring \<Rightarrow> jstring option" where
  "fenceAt s =
     (if prefix fence s then
        (let r = drop 3 s;
             r' = (if prefix (js ''json'') r then drop 4 r else r)
         in objectAt closesFence (dropWhile isSpace r'))
      else None)"

fun fencedMatch :: "jstring \<Rightarrow> jstring option" where
  "fencedMatch [] = None"
| "fencedMatch (c # cs) =
     (case fenceAt (c # cs) of
        Some g \<Rightarrow> Some g
      | None \<Rightarrow> fencedMatch cs)"

text \<open>The second pattern, \<open>\{[\s\S]*\}\<close>; the result is the whole match.\<close>

fun objectMatch :: "jstring \<Rightarrow> jstring option" where
  "objectMatch [] = None"
| "objectMatch (c # cs) =
     (case objectAt (\<lambda>_. True) (c # cs) of
        Some m \<Rightarrow> Some m
      | None \<Rightarrow> objectMatch cs)"

definition extractJSON :: "jstring \<Rightarrow> jstring" where
  "extractJSON content =
     (case fencedMatch content of
        Some g \<Rightarrow> g
      | None \<Rightarrow>
          (case objectMatch content of
             Some m \<Rightarrow> m
           | None \<Rightarrow> content))"

text \<open>
  The extraction order as the specification words it, for comparison: a balanced span is
  found by counting braces, and the first one starts at the first opening brace that has
  its matching closing brace.
\<close>

fun balancedEnd :: "nat \<Rightarrow> jstring \<Rightarrow> nat option" where
  "balancedEnd d [] = None"
| "balancedEnd d (c # cs) =
     (if c = rbrace then
        (case d of 0 \<Rightarrow> Some 0 | Suc d' \<Rightarrow> map_option Suc (balancedEnd d' cs))
      else if c = lbrace then map_option Suc (balancedEnd (Suc d) cs)
      else map_option Suc (balancedEnd d cs))"

fun firstBalancedSpan :: "jstring \<Rightarrow> jstring option" where
  "firstBalancedSpan [] = None"
| "firstBalancedSpan (c # cs) =
     (if c = lbrace then
        (case balancedEnd 0 cs of
           Some n \<Rightarrow> Some (c # take (Suc n) cs)
         | None \<Rightarrow> firstBalancedSpan cs)
      else firstBalancedSpan cs)"

section \<open>The response interpreter: validation\<close>

subsection \<open>Text of the analysis payloads\<close>

definition v_strengths :: jstring where
  \<comment> \<open>line 268, the default\<close>
  "v_strengths = [25216, 33021, 34920, 29694, 33391, 22909]"

definition v_improvements :: jstring where
  \<comment> \<open>line 269, the default\<close>
  "v_improvements = [25345, 32396, 23416, 32722, 26032, 25216, 33021]"

definition v_developmentPlan :: jstring where
  \<comment> \<open>line 270, the default\<close>
  "v_developmentPlan = [24314, 35696, 21046, 23450, 20491, 20154, 30332, 23637, 35336, 21123]"

definition v_riskAssessment :: jstring where
  \<comment> \<open>line 271, the default\<close>
  "v_riskAssessment = [25972, 39636, 39080, 38570, 36611, 20302]"

definition v_careerPath :: jstring where
  \<comment> \<open>line 272, the default\<close>
  "v_careerPath = [24314, 35696, 36880, 27493, 25552, 21319, 23560, 26989, 33021, 21147]"

definition t_strengths :: jstring where
  \<comment> \<open>line 304\<close>
  "t_strengths = [22522, 26044, 65, 73, 20998, 26512, 30340, 20778, 21218, 35672, 21029]"

definition t_improvements :: jstring where
  \<comment> \<open>line 305\<close>
  "t_improvements = [22522, 26044, 65, 73, 20998, 26512, 30340, 25913, 36914, 24314, 35696]"

definition t_riskAssessment :: jstring where
  \<comment> \<open>line 307\<close>
  "t_riskAssessment = [38656, 35201, 36914, 19968, 27493, 35413, 20272]"

definition t_careerPath :: jstring where
  \<comment> \<open>line 308\<close>
  "t_careerPath = [24314, 35696, 35566, 35426, 23560, 26989, 39015, 21839]"

definition m_strength0a :: jstring where
  \<comment> \<open>line 336, before the position\<close>
  "m_strength0a = [22312]"

definition m_strength0b :: jstring where
  \<comment> \<open>line 336, after the position\<close>
  "m_strength0b = [38936, 22495, 34920, 29694, 31361, 20986]"

definition m_strength1 :: jstring where
  \<comment> \<open>line 337\<close>
  "m_strength1 = [23416, 32722, 33021, 21147, 24375, 65292, 36969, 25033, 24615, 22909]"

definition m_strength2 :: jstring where
  \<comment> \<open>line 338\<close>
  "m_strength2 = [22296, 38538, 21332, 20316, 31309, 26997, 20027, 21205]"

definition m_strength3 :: jstring where
  \<comment> \<open>line 339\<close>
  "m_strength3 = [21839, 38988, 35299, 27770, 33021, 21147, 20778, 31168]"

definition m_improvement0 :: jstring where
  \<comment> \<open>line 342\<close>
  "m_improvement0 = [21487, 36914, 19968, 27493, 25552, 21319, 25216, 34899, 28145, 24230]"

definition m_improvement1 :: jstring where
  \<comment> \<open>line 343\<close>
  "m_improvement1 = [24314, 35696, 21152, 24375, 36328, 37096, 38272, 21332, 20316, 32147, 39511]"

definition m_improvement2 :: jstring where
  \<comment> \<open>line 344\<close>
  "m_improvement2 = [21487, 32771, 24942, 25215, 25812, 26356, 22810, 38936, 23566, 36012, 20219]"

definition m_plan_a :: jstring where
  \<comment> \<open>line 346, before the name\<close>
  "m_plan_a = [24314, 35696]"

definition m_plan_b :: jstring where
  \<comment> \<open>line 346, after the name\<close>
  "m_plan_b = [22312, 25509, 19979, 20358, 54, 20491, 26376, 20839, 37325, 40670, 30332, 23637,
     25216, 34899, 38936, 23566, 21147, 65292, 21443, 33287, 26356, 22810, 36328, 21151, 33021,
     38917, 30446, 65292, 20006, 32771, 24942, 36914, 20462, 30456, 38364, 35469, 35657, 35506,
     31243, 12290]"

definition m_risk :: jstring where
  \<comment> \<open>line 347\<close>
  "m_risk = [25972, 39636, 39080, 38570, 36611, 20302, 65292, 24314, 35696, 23450, 26399,
     38364, 27880, 32887, 28079, 30332, 23637, 38656, 27714, 21644, 24037, 20316, 28415, 24847,
     24230, 12290]"

definition m_career_a :: jstring where
  \<comment> \<open>line 348, before the position\<close>
  "m_career_a = [36969, 21512, 24448, 36039, 28145]"

definition m_career_b :: jstring where
  \<comment> \<open>line 348, after the position\<close>
  "m_career_b = [25110, 25216, 34899, 31649, 29702, 26041, 21521, 30332, 23637, 12290]"

subsection \<open>validateScore and validateEmployeeAnalysis\<close>

text \<open>
  The payload of an employee analysis. An array taken from the provider's reply holds
  whatever JSON values the reply put there, and so does a narrative field.
\<close>

record employeeAnalysis =
  overallScore :: jsnum
  performanceScore :: jsnum
  skillsScore :: jsnum
  potentialScore :: jsnum
  strengths :: "jsval list"
  improvements :: "jsval list"
  developmentPlan :: jsval
  riskAssessment :: jsval
  careerPath :: jsval

definition validateScore :: "runtime \<Rightarrow> jsval option \<Rightarrow> jsError + jsnum" where
  "validateScore rt score =
     (case parseFloat rt score of
        Inl e \<Rightarrow> Inl e
      | Inr num \<Rightarrow>
          Inr (if num = NaN then Fin 7.5 else math_max (Fin 1) (math_min (Fin 10) num)))"

text \<open>\<open>Array.isArray(v) ? v : [d]\<close>\<close>

definition arrayOr :: "jsval option \<Rightarrow> jstring \<Rightarrow> jsval list" where
  "arrayOr v d = (case v of Some (JArr xs) \<Rightarrow> xs | _ \<Rightarrow> [JStr d])"

text \<open>\<open>v || d\<close>\<close>

definition valueOr :: "jsval option \<Rightarrow> jstring \<Rightarrow> jsval" where
  "valueOr v d = (case v of None \<Rightarrow> JStr d | Some x \<Rightarrow> if truthy (Some x) then x else JStr d)"

text \<open>
  The object literal is evaluated field by field; the first score whose conversion
  throws ends it. Every throw here is a TypeError.
\<close>

definition validateEmployeeAnalysis :: "runtime \<Rightarrow> jsval \<Rightarrow> jsError + employeeAnalysis" where
  "validateEmployeeAnalysis rt analysis =
     (if analysis = JNull then Inl TypeError
      else
        (case validateScore rt (getProp analysis (js ''overallScore'')) of
           Inl e \<Rightarrow> Inl e
         | Inr overall \<Rightarrow>
        (case validateScore rt (getProp analysis (js ''performanceScore'')) of
           Inl e \<Rightarrow> Inl e
         | Inr performance \<Rightarrow>
        (case validateScore rt (getProp analysis (js ''skillsScore'')) of
           Inl e \<Rightarrow> Inl e
         | Inr skills \<Rightarrow>
        (case validateScore rt (getProp analysis (js ''potentialScore'')) of
           Inl e \<Rightarrow> Inl e
         | Inr potential \<Rightarrow>
             Inr \<lparr>
               overallScore = overall,
               performanceScore = performance,
               skillsScore = skills,
               potentialScore = potential,
               strengths = arrayOr (getProp analysis (js ''strengths'')) v_strengths,
               improvements = arrayOr (getProp analysis (js ''improvements'')) v_improvements,
               developmentPlan =
                 valueOr (getProp analysis (js ''developmentPlan'')) v_developmentPlan,
               riskAssessment =
                 valueOr (getProp analysis (js ''riskAssessment'')) v_riskAssessment,
               careerPath = valueOr (getProp analysis (js ''careerPath'')) v_careerPath
             \<rparr>)))))"

subsection \<open>parseEmployeeAnalysis\<close>

text \<open>
  The doubles that the source writes 8.2, 7.8 and 8.7, by their exact values; 8.0, 8.5
  and 7.5 are doubles as they stand.
\<close>

definition d8_2 :: rat where
  "d8_2 = 2308094809027379 / 281474976710656"

definition d7_8 :: rat where
  "d7_8 = 8782019273372467 / 1125899906842624"

definition d8_7 :: rat where
  "d8_7 = 2448832297382707 / 281474976710656"

text \<open>
  The content of the provider's message is a string or \<open>null\<close> (\<open>None\<close>); calling
  \<open>slice\<close> or \<open>match\<close> on \<open>null\<close> throws a TypeError.
\<close>

definition parseEmployeeTextResponse :: "jstring option \<Rightarrow> jsError + employeeAnalysis" where
  "parseEmployeeTextResponse content =
     (case content of
        None \<Rightarrow> Inl TypeError
      | Some c \<Rightarrow> Inr \<lparr>
          overallScore = Fin 8.0,
          performanceScore = Fin d8_2,
          skillsScore = Fin d7_8,
          potentialScore = Fin 8.5,
          strengths = [JStr t_strengths],
          improvements = [JStr t_improvements],
          developmentPlan = JStr (take 200 c @ js ''...''),
          riskAssessment = JStr t_riskAssessment,
          careerPath = JStr t_careerPath
        \<rparr>)"

record analysisResult =
  success :: bool
  data :: employeeAnalysis
  source :: jstring

text \<open>The body of the \<open>try\<close> block of \<open>parseEmployeeAnalysis\<close>.\<close>

definition strictParse :: "runtime \<Rightarrow> jstring option \<Rightarrow> jsError + employeeAnalysis" where
  "strictParse rt content =
     (case content of
        None \<Rightarrow> Inl TypeError
      | Some c \<Rightarrow>
          (case JSON_parse rt (extractJSON c) of
             None \<Rightarrow> Inl SyntaxError
           | Some analysis \<Rightarrow> validateEmployeeAnalysis rt analysis))"

definition parseEmployeeAnalysis :: "runtime \<Rightarrow> jstring option \<Rightarrow> jsError + analysisResult" where
  "parseEmployeeAnalysis rt content =
     (case strictParse rt content of
        Inr d \<Rightarrow> Inr \<lparr>success = True, data = d, source = js ''openai''\<rparr>
      | Inl _ \<Rightarrow>
          (case parseEmployeeTextResponse content of
             Inl e \<Rightarrow> Inl e
           | Inr d \<Rightarrow> Inr \<lparr>success = True, data = d, source = js ''openai-parsed''\<rparr>))"

section \<open>The model invocation adapter\<close>

text \<open>
  The object literal of the mock analysis holds three template literals, which convert
  the position and the name of the employee to text.
\<close>

definition getMockEmployeeAnalysis :: "runtime \<Rightarrow> jsobject \<Rightarrow> jsError + analysisResult" where
  "getMockEmployeeAnalysis rt employee =
     (case template [Inr m_strength0a, interp rt (get employee (js ''position'')),
                     Inr m_strength0b] of
        Inl e \<Rightarrow> Inl e
      | Inr strength0 \<Rightarrow>
     (case template [Inr m_plan_a, interp rt (get employee (js ''name'')), Inr m_plan_b] of
        Inl e \<Rightarrow> Inl e
      | Inr plan \<Rightarrow>
     (case template [Inr m_career_a, interp rt (get employee (js ''position'')),
                     Inr m_career_b] of
        Inl e \<Rightarrow> Inl e
      | Inr career \<Rightarrow>
          Inr \<lparr>success = True,
               data = \<lparr>
                 overallScore = Fin d8_2,
                 performanceScore = Fin 8.5,
                 skillsScore = Fin d7_8,
                 potentialScore = Fin d8_7,
                 strengths = [JStr strength0, JStr m_strength1, JStr m_strength2, JStr m_strength3],
                 improvements = [JStr m_improvement0, JStr m_improvement1, JStr m_improvement2],
                 developmentPlan = JStr plan,
                 riskAssessment = JStr m_risk,
                 careerPath = JStr career
               \<rparr>,
               source = js ''mock''\<rparr>)))"

definition getFallbackEmployeeAnalysis :: "runtime \<Rightarrow> jsobject \<Rightarrow> jsError + analysisResult" where
  "getFallbackEmployeeAnalysis rt employee = getMockEmployeeAnalysis rt employee"

definition getEmployeeSystemPrompt :: jstring where
  "getEmployeeSystemPrompt = employeeSystemPromptText"

text \<open>
  The service object: whether a client was built (the API key was configured) and the
  settings read at construction.
\<close>

record openAIService =
  client :: bool
  model :: jstring
  maxTokens :: nat
  temperature :: rat

record chatRequest =
  model_rq :: jstring
  messages :: "(jstring \<times> jstring) list"
  max_tokens :: nat
  temperature_rq :: rat

text \<open>
  What one call of \<open>client.chat.completions.create\<close> does: it rejects (also counted here:
  a response without \<open>choices[0].message\<close>, whose read throws inside the same \<open>try\<close>), or it
  answers with the content of the first message.
\<close>

datatype providerOutcome = Rejects | Replies "jstring option"

text \<open>
  The first line logs a template literal with the name of the employee, and the prompt is
  built before the \<open>try\<close> block: a conversion that throws there is caught nowhere in the
  service. The \<open>catch\<close> block returns the fallback analysis, whose own template literals
  are not guarded either.
\<close>

definition analyzeEmployee ::
  "runtime \<Rightarrow> openAIService \<Rightarrow> (chatRequest \<Rightarrow> providerOutcome) \<Rightarrow> jsobject
     \<Rightarrow> jsError + analysisResult" where
  "analyzeEmployee rt svc create employeeData =
     (case interp rt (get employeeData (js ''name'')) of
        Inl e \<Rightarrow> Inl e
      | Inr _ \<Rightarrow>
          if \<not> client svc then getMockEmployeeAnalysis rt employeeData
          else
            (case buildEmployeePrompt rt employeeData of
               Inl e \<Rightarrow> Inl e
             | Inr prompt \<Rightarrow>
                 (case create \<lparr>model_rq = model svc,
                               messages = [(js ''system'', getEmployeeSystemPrompt),
                                           (js ''user'', prompt)],
                               max_tokens = maxTokens svc,
                               temperature_rq = temperature svc\<rparr> of
                    Rejects \<Rightarrow> getFallbackEmployeeAnalysis rt employeeData
                  | Replies content \<Rightarrow>
                      (case parseEmployeeAnalysis rt content of
                         Inl _ \<Rightarrow> getFallbackEmployeeAnalysis rt employeeData
                       | Inr r \<Rightarrow> Inr r))))"

section \<open>The analysis record store\<close>

definition getDefaultEmployees :: "jsobject list" where
  "getDefaultEmployees =
     [
      [
       (js ''id'', JStr (js ''1'')),
       (js ''name'', JStr [24373, 23567, 26126]),
       (js ''position'', JStr [21069, 31471, 24037, 31243, 24107]),
       (js ''department'', JStr [30740, 30332, 37096]),
       (js ''experience'', JNum (Fin 3)),
       (js ''skills'', JArr [JStr (js ''JavaScript''), JStr (js ''Vue.js''),
           JStr (js ''React''), JStr (js ''CSS''), JStr (js ''HTML'')]),
       (js ''email'', JStr (js ''ming.zhang@company.com'')),
       (js ''joinDate'', JStr (js ''2022-03-15'')),
       (js ''specialization'', JStr [21069, 31471, 38283, 30332]),
       (js ''recentPerformance'', JStr [34920, 29694, 20778, 31168, 65292, 25353, 26178, 23436,
           25104, 25152, 26377, 23560, 26696, 20219, 21209, 65292, 20195, 30908, 21697, 36074,
           39640]),
       (js ''feedback'', JStr [21516, 20107, 35413, 20729, 31309, 26997, 65292, 27138, 26044,
           21161, 20154, 65292, 25216, 34899, 20998, 20139, 31309, 26997]),
       (js ''projectContribution'', JStr [20027, 23566, 20102, 20844, 21496, 23448, 32178,
           37325, 27083, 38917, 30446, 65292, 25552, 21319, 20102, 52, 48, 37, 30340, 21152,
           36617, 36895, 24230])
      ],
      [
       (js ''id'', JStr (js ''2'')),
       (js ''name'', JStr [26446, 23567, 33775]),
       (js ''position'', JStr [29986, 21697, 32147, 29702]),
       (js ''department'', JStr [29986, 21697, 37096]),
       (js ''experience'', JNum (Fin 5)),
       (js ''skills'', JArr [JStr [29986, 21697, 35215, 21123], JStr [29992, 25142, 30740,
           31350], JStr [25976, 25818, 20998, 26512], JStr [38917, 30446, 31649, 29702],
           JStr (js ''Agile'')]),
       (js ''email'', JStr (js ''hua.li@company.com'')),
       (js ''joinDate'', JStr (js ''2020-07-01'')),
       (js ''specialization'', JStr [29986, 21697, 31574, 30053]),
       (js ''recentPerformance'', JStr [25104, 21151, 25512, 20986, 51, 20491, 26032, 21151,
           33021, 65292, 29992, 25142, 28415, 24847, 24230, 25552, 21319, 50, 53, 37]),
       (js ''feedback'', JStr [28317, 36890, 33021, 21147, 24375, 65292, 33021, 26377, 25928,
           21332, 35519, 21508, 37096, 38272, 36039, 28304]),
       (js ''projectContribution'', JStr [36000, 36012, 29992, 25142, 22686, 38263, 31574,
           30053, 65292, 26376, 27963, 36493, 29992, 25142, 22686, 38263, 51, 48, 37])
      ],
      [
       (js ''id'', JStr (js ''3'')),
       (js ''name'', JStr [29579, 23567, 32654]),
       (js ''position'', JStr [85, 73, 35373, 35336, 24107]),
       (js ''department'', JStr [35373, 35336, 37096]),
       (js ''experience'', JNum (Fin 2)),
       (js ''skills'', JArr [JStr (js ''Figma''), JStr (js ''Sketch''),
           JStr (js ''Adobe Creative Suite''), JStr (js ''Prototyping''),
           JStr (js ''User Research'')]),
       (js ''email'', JStr (js ''mei.wang@company.com'')),
       (js ''joinDate'', JStr (js ''2022-09-01'')),
       (js ''specialization'', JStr [29992, 25142, 20171, 38754, 35373, 35336]),
       (js ''recentPerformance'', JStr [35373, 35336, 20316, 21697, 29554, 24471, 22296, 38538,
           19968, 33268, 22909, 35413, 65292, 35373, 35336, 25928, 29575, 25345, 32396, 25552,
           21319]),
       (js ''feedback'', JStr [21109, 24847, 24605, 32173, 27963, 36493, 65292, 23565, 29992,
           25142, 39636, 39511, 26377, 25935, 37555, 27934, 23519, 21147]),
       (js ''projectContribution'', JStr [37325, 26032, 35373, 35336, 20102, 31227, 21205,
           31471, 30028, 38754, 65292, 29992, 25142, 39636, 39511, 35413, 20998, 25552, 21319,
           51, 53, 37])
      ],
      [
       (js ''id'', JStr (js ''4'')),
       (js ''name'', JStr [38515, 23567, 24375]),
       (js ''position'', JStr [24460, 31471, 24037, 31243, 24107]),
       (js ''department'', JStr [30740, 30332, 37096]),
       (js ''experience'', JNum (Fin 4)),
       (js ''skills'', JArr [JStr (js ''Node.js''), JStr (js ''Python''), JStr (js ''Docker''),
           JStr (js ''MongoDB''), JStr (js ''Redis''), JStr (js ''AWS'')]),
       (js ''email'', JStr (js ''qiang.chen@company.com'')),
       (js ''joinDate'', JStr (js ''2021-05-20'')),
       (js ''specialization'', JStr [24460, 31471, 26550, 27083]),
       (js ''recentPerformance'', JStr [31995, 32113, 31337, 23450, 24615, 39023, 33879, 25552,
           21319, 65292, 65, 80, 73, 38911, 25033, 26178, 38291, 20778, 21270, 53, 48, 37]),
       (js ''feedback'', JStr [25216, 34899, 33021, 21147, 24375, 65292, 23565, 31995, 32113,
           26550, 27083, 26377, 28145, 20837, 29702, 35299]),
       (js ''projectContribution'', JStr [20027, 23566, 24494, 26381, 21209, 26550, 27083,
           36983, 31227, 65292, 31995, 32113, 21487, 25844, 23637, 24615, 22823, 24133, 25552,
           21319])
      ],
      [
       (js ''id'', JStr (js ''5'')),
       (js ''name'', JStr [26519, 23567, 33673]),
       (js ''position'', JStr [25976, 25818, 20998, 26512, 24107]),
       (js ''department'', JStr [25976, 25818, 37096]),
       (js ''experience'', JNum (Fin 2)),
       (js ''skills'', JArr [JStr (js ''Python''), JStr (js ''SQL''), JStr (js ''Tableau''),
           JStr (js ''Machine Learning''), JStr (js ''Statistics'')]),
       (js ''email'', JStr (js ''li.lin@company.com'')),
       (js ''joinDate'', JStr (js ''2022-11-01'')),
       (js ''specialization'', JStr [25976, 25818, 31185, 23416]),
       (js ''recentPerformance'', JStr [24314, 31435, 20102, 22810, 20491, 38364, 37749, 26989,
           21209, 25351, 27161, 30340, 30435, 25511, 100, 97, 115, 104, 98, 111, 97, 114, 100]),
       (js ''feedback'', JStr [37007, 36655, 24605, 32173, 28165, 26224, 65292, 25976, 25818,
           27934, 23519, 33021, 21147, 24375]),
       (js ''projectContribution'', JStr [24314, 31435, 29992, 25142, 34892, 28858, 38928,
           28204, 27169, 22411, 65292, 29151, 37559, 25928, 29575, 25552, 21319, 52, 48, 37])
      ]
     ]"

record metadata =
  source_md :: jstring
  success_md :: bool
  timestamp :: nat
  analysisType_md :: "jsval option"
  timeRange_md :: "jsval option"
  requestId :: "jstring option"
  batchAnalysis :: "bool option"

text \<open>The fourth argument of \<open>saveAnalysis\<close>, as the two routes build it.\<close>

record extraMetadata =
  analysisType_x :: "jsval option"
  timeRange_x :: "jsval option"
  requestId_x :: "jstring option"
  batchAnalysis_x :: "bool option"

record analysisRecord =
  id_r :: jstring
  type_r :: jstring
  targetId :: jsval
  analysis :: employeeAnalysis
  metadata :: metadata

text \<open>
  The two files of the data service. \<open>None\<close> is a file that cannot be read or parsed. The
  employees file is written by the service only and holds a list of objects. A write is
  taken to succeed. A time is the number of milliseconds since the epoch, which is what
  \<open>new Date(...)\<close> makes of the stored ISO text.
\<close>

record files =
  employeesFile :: "jsobject list option"
  analysesFile :: "analysisRecord list option"

definition getAllEmployees :: "files \<Rightarrow> jsobject list \<times> files" where
  "getAllEmployees fs =
     (case employeesFile fs of
        Some employees \<Rightarrow> (employees, fs)
      | None \<Rightarrow> (getDefaultEmployees, fs\<lparr>employeesFile := Some getDefaultEmployees\<rparr>))"

text \<open>
  The id looked up is a text in the routes that take it from the path, and any JSON value
  in the batch route. The message of the error is a template literal that converts the
  id to text.
\<close>

definition hasId :: "jsval \<Rightarrow> jsobject \<Rightarrow> bool" where
  \<comment> \<open>\<open>emp.id === id\<close>\<close>
  "hasId ident emp = (case get emp (js ''id'') of None \<Rightarrow> False | Some v \<Rightarrow> strictEq v ident)"

definition getEmployee :: "runtime \<Rightarrow> files \<Rightarrow> jsval \<Rightarrow> (jsError + jsobject) \<times> files" where
  "getEmployee rt fs ident =
     (let (employees, fs') = getAllEmployees fs
      in case find (hasId ident) employees of
           None \<Rightarrow>
             (case template [Inr (js ''Employee with id ''), toStr rt ident,
                             Inr (js '' not found'')] of
                Inl e \<Rightarrow> (Inl e, fs')
              | Inr message \<Rightarrow> (Inl (Error message), fs'))
         | Some employee \<Rightarrow> (Inr employee, fs'))"

definition saveAnalysis ::
  "files \<Rightarrow> jstring \<Rightarrow> nat \<Rightarrow> jstring \<Rightarrow> jsval \<Rightarrow> analysisResult \<Rightarrow> extraMetadata
     \<Rightarrow> analysisRecord \<times> files" where
  "saveAnalysis fs uuid now type ident analysisRes extra =
     (let analysisRecord = \<lparr>
            id_r = uuid,
            type_r = type,
            targetId = ident,
            analysis = data analysisRes,
            metadata = \<lparr>
              source_md = source analysisRes,
              success_md = success analysisRes,
              timestamp = now,
              analysisType_md = analysisType_x extra,
              timeRange_md = timeRange_x extra,
              requestId = requestId_x extra,
              batchAnalysis = batchAnalysis_x extra\<rparr>\<rparr>;
          analyses = (case analysesFile fs of Some xs \<Rightarrow> xs | None \<Rightarrow> []);
          analyses = analyses @ [analysisRecord];
          analyses = (if length analyses > 1000
                      then drop (length analyses - 1000) analyses else analyses)
      in (analysisRecord, fs\<lparr>analysesFile := Some analyses\<rparr>))"

text \<open>
  \<open>Array.prototype.sort\<close> with a comparator is stable; \<open>x\<close> goes before the first \<open>y\<close>
  that the comparator does not put before it.
\<close>

fun insertBy :: "('a \<Rightarrow> 'a \<Rightarrow> int) \<Rightarrow> 'a \<Rightarrow> 'a list \<Rightarrow> 'a list" where
  "insertBy cmp x [] = [x]"
| "insertBy cmp x (y # ys) = (if cmp x y \<le> 0 then x # y # ys else y # insertBy cmp x ys)"

definition sortBy :: "('a \<Rightarrow> 'a \<Rightarrow> int) \<Rightarrow> 'a list \<Rightarrow> 'a list" where
  "sortBy cmp xs = foldr (insertBy cmp) xs []"

text \<open>\<open>xs.slice(0, n)\<close>: a negative \<open>n\<close> counts from the end.\<close>

definition slice0 :: "int \<Rightarrow> 'a list \<Rightarrow> 'a list" where
  "slice0 n xs = (if n < 0 then take (nat (int (length xs) + n)) xs else take (nat n) xs)"

definition byTimestampDesc :: "analysisRecord \<Rightarrow> analysisRecord \<Rightarrow> int" where
  "byTimestampDesc a b = int (timestamp (metadata b)) - int (timestamp (metadata a))"

definition getAnalysisHistory :: "files \<Rightarrow> jstring \<Rightarrow> jsval \<Rightarrow> int \<Rightarrow> analysisRecord list" where
  "getAnalysisHistory fs type ident limit =
     (case analysesFile fs of
        None \<Rightarrow> []
      | Some analyses \<Rightarrow>
          slice0 limit
            (sortBy byTimestampDesc
               (filter (\<lambda>a. type_r a = type \<and> strictEq (targetId a) ident) analyses)))"



text \<open>A sequence of \<open>saveAnalysis\<close> calls; each call has its own uuid and clock.\<close>

record appendCall =
  uuid_c :: jstring
  now_c :: nat
  type_c :: jstring
  targetId_c :: jsval
  result_c :: analysisResult
  extra_c :: extraMetadata

definition append1 :: "files \<Rightarrow> appendCall \<Rightarrow> files" where
  "append1 fs c =
     snd (saveAnalysis fs (uuid_c c) (now_c c) (type_c c) (targetId_c c) (result_c c) (extra_c c))"

definition appends :: "files \<Rightarrow> appendCall list \<Rightarrow> files" where
  "appends fs cs = foldl append1 fs cs"

section \<open>The orchestration handlers\<close>

text \<open>
  What the outside supplies to one analysis: the provider's behaviour on the request, the
  uuid that \<open>uuidv4\<close> draws and the clock.
\<close>

record world =
  provider :: "chatRequest \<Rightarrow> providerOutcome"
  uuid :: jstring
  now :: nat

text \<open>
  The body of a request is what \<open>express.json()\<close> made of it: an object or an array, and
  the empty object when the request has none.
\<close>

record analyzeRequest =
  params_id :: jstring
  body :: jsval
  x_request_id :: "jstring option"

text \<open>
  The JSON bodies the two routes send. \<open>AnalyzeOk\<close>: the employee, the analysis, then
  \<open>analyzedAt\<close>, \<open>source\<close>, \<open>analysisId\<close> and the two parameters. \<open>BatchOk\<close>: the successful
  entries (id, name, analysis, source), the failed entries (id, error), then the summary's
  \<open>total\<close>, \<open>successful\<close> and \<open>failed\<close>. \<open>Failure\<close> carries a fixed text and \<open>FailureOf\<close>
  the message of the error caught.
\<close>

datatype responseBody =
    AnalyzeOk jsobject employeeAnalysis nat jstring jstring "jsval option \<times> jsval option"
  | BatchOk "(jsval \<times> jsval option \<times> employeeAnalysis \<times> jstring) list"
      "(jsval \<times> jsError) list" nat nat nat
  | Failure jstring
  | FailureOf jsError

record response =
  status :: nat
  body_rs :: responseBody

text \<open>The decimal text of an array index.\<close>

fun decimal :: "nat \<Rightarrow> jstring" where
  "decimal n = (if n < 10 then [48 + n] else decimal (n div 10) @ [48 + n mod 10])"

text \<open>
  The own enumerable properties that \<open>{...v}\<close> copies: those of an object, the indexed
  elements of an array and the indexed code units of a text; a number, a boolean and
  \<open>null\<close> have none.
\<close>

fun ownProps :: "jsval \<Rightarrow> jsobject" where
  "ownProps (JObj kvs) = kvs"
| "ownProps (JArr xs) = zip (map decimal [0..<length xs]) xs"
| "ownProps (JStr s) = zip (map decimal [0..<length s]) (map (\<lambda>c. JStr [c]) s)"
| "ownProps _ = []"

text \<open>
  The \<open>catch\<close> block of the employee routes. Only an \<open>Error\<close> built by the data service
  has a message known here; the runtime's messages for a TypeError or a SyntaxError do not
  contain "not found".
\<close>

definition isNotFound :: "jsError \<Rightarrow> bool" where
  "isNotFound e = (case e of Error m \<Rightarrow> includes_js m (js ''not found'') | _ \<Rightarrow> False)"

definition errorResponse :: "jsError \<Rightarrow> response" where
  "errorResponse e =
     (if isNotFound e then \<lparr>status = 404, body_rs = Failure (js ''Employee not found'')\<rparr>
      else \<lparr>status = 500, body_rs = FailureOf e\<rparr>)"

text \<open>
  The object that the analyze route hands to the service: the employee, overridden by the
  body, with five fields set after that.
\<close>

definition analysisDataOf :: "jsobject \<Rightarrow> jsval \<Rightarrow> jsobject" where
  "analysisDataOf employee b =
     setProp (js ''projectContribution'')
       (orElse (getProp b (js ''projectContribution'')) (get employee (js ''projectContribution'')))
       (setProp (js ''feedback'')
          (orElse (getProp b (js ''feedback'')) (get employee (js ''feedback'')))
          (setProp (js ''recentPerformance'')
             (orElse (getProp b (js ''recentPerformance''))
                (get employee (js ''recentPerformance'')))
             (setProp (js ''timeRange'')
                (orElse (getProp b (js ''timeRange'')) (Some (JStr (js ''6months''))))
                (setProp (js ''analysisType'')
                   (orElse (getProp b (js ''analysisType''))
                      (Some (JStr (js ''comprehensive''))))
                   (spread employee (ownProps b))))))"

text \<open>
  The whole handler is one \<open>try\<close> block. After the employee is found, a line of the log
  is a template literal with the analysis type and the time range, which are converted
  to text.
\<close>

definition analyzeRoute ::
  "runtime \<Rightarrow> openAIService \<Rightarrow> world \<Rightarrow> files \<Rightarrow> analyzeRequest \<Rightarrow> response \<times> files" where
  "analyzeRoute rt svc w fs req =
     (let employeeId = params_id req
      in case getEmployee rt fs (JStr employeeId) of
           (Inl e, fs1) \<Rightarrow> (errorResponse e, fs1)
         | (Inr employee, fs1) \<Rightarrow>
             (let analysisData = analysisDataOf employee (body req)
              in case template [interp rt (get analysisData (js ''analysisType'')),
                                interp rt (get analysisData (js ''timeRange''))] of
                   Inl e \<Rightarrow> (errorResponse e, fs1)
                 | Inr _ \<Rightarrow>
              (case analyzeEmployee rt svc (provider w) analysisData of
                   Inl e \<Rightarrow> (errorResponse e, fs1)
                 | Inr analysisRes \<Rightarrow>
                     (let (savedAnalysis, fs2) =
                            saveAnalysis fs1 (uuid w) (now w) (js ''employee'') (JStr employeeId)
                              analysisRes
                              \<lparr>analysisType_x = get analysisData (js ''analysisType''),
                               timeRange_x = get analysisData (js ''timeRange''),
                               requestId_x =
                                 Some (case x_request_id req of
                                         None \<Rightarrow> js ''unknown''
                                       | Some h \<Rightarrow> if h = [] then js ''unknown'' else h),
                               batchAnalysis_x = None\<rparr>
                      in (\<lparr>status = 200,
                           body_rs = AnalyzeOk employee (data analysisRes)
                             (timestamp (metadata savedAnalysis)) (source analysisRes)
                             (id_r savedAnalysis)
                             (get analysisData (js ''analysisType''),
                              get analysisData (js ''timeRange''))\<rparr>,
                          fs2)))))"

text \<open>
  The \<open>try\<close> block of one pass of the batch loop: the entry for the list of results, or
  the error thrown.
\<close>

definition batchPass ::
  "runtime \<Rightarrow> openAIService \<Rightarrow> jsval \<Rightarrow> jsval \<Rightarrow> world \<Rightarrow> files \<Rightarrow> jsval
     \<Rightarrow> (jsError + jsval \<times> jsval option \<times> employeeAnalysis \<times> jstring) \<times> files" where
  "batchPass rt svc aType tRange w fs employeeId =
     (case getEmployee rt fs employeeId of
        (Inl e, fs1) \<Rightarrow> (Inl e, fs1)
      | (Inr employee, fs1) \<Rightarrow>
          (let analysisData =
                 setProp (js ''timeRange'') (Some tRange)
                   (setProp (js ''analysisType'') (Some aType) employee)
           in case analyzeEmployee rt svc (provider w) analysisData of
                Inl e \<Rightarrow> (Inl e, fs1)
              | Inr analysisRes \<Rightarrow>
                  (let (savedAnalysis, fs2) =
                         saveAnalysis fs1 (uuid w) (now w) (js ''employee'')
                           employeeId analysisRes
                           \<lparr>analysisType_x = Some aType,
                            timeRange_x = Some tRange,
                            requestId_x = None,
                            batchAnalysis_x = Some True\<rparr>
                   in (Inr (employeeId, get employee (js ''name''), data analysisRes,
                            source analysisRes),
                       fs2))))"

text \<open>
  The loop of the batch route, with its two accumulators; pass \<open>i\<close> of the loop runs in
  the world \<open>ws i\<close>. The \<open>catch\<close> block of a pass logs a template literal with the id
  before it records the error; when the conversion of the id throws there, the loop is
  left and the error reaches the \<open>catch\<close> block of the route.
\<close>

fun batchLoop ::
  "runtime \<Rightarrow> openAIService \<Rightarrow> jsval \<Rightarrow> jsval \<Rightarrow> (nat \<Rightarrow> world) \<Rightarrow> nat \<Rightarrow> jsval list
     \<Rightarrow> files \<times> (jsval \<times> jsval option \<times> employeeAnalysis \<times> jstring) list
         \<times> (jsval \<times> jsError) list
     \<Rightarrow> (jsError + (jsval \<times> jsval option \<times> employeeAnalysis \<times> jstring) list
                    \<times> (jsval \<times> jsError) list) \<times> files" where
  "batchLoop rt svc aType tRange ws i [] (fs, results, errors) = (Inr (results, errors), fs)"
| "batchLoop rt svc aType tRange ws i (employeeId # rest) (fs, results, errors) =
     (case batchPass rt svc aType tRange (ws i) fs employeeId of
        (Inr entry, fs1) \<Rightarrow>
          batchLoop rt svc aType tRange ws (Suc i) rest (fs1, results @ [entry], errors)
      | (Inl e, fs1) \<Rightarrow>
          (case toStr rt employeeId of
             Inl e' \<Rightarrow> (Inl e', fs1)
           | Inr _ \<Rightarrow>
               batchLoop rt svc aType tRange ws (Suc i) rest
                 (fs1, results, errors @ [(employeeId, e)])))"

definition batchRoute ::
  "runtime \<Rightarrow> openAIService \<Rightarrow> (nat \<Rightarrow> world) \<Rightarrow> files \<Rightarrow> jsval \<Rightarrow> response \<times> files" where
  "batchRoute rt svc ws fs b =
     (case getProp b (js ''employeeIds'') of
        Some (JArr ids) \<Rightarrow>
          if ids = [] then
            (\<lparr>status = 400, body_rs = Failure (js ''employeeIds must be a non-empty array'')\<rparr>, fs)
          else
            (let aType = (case getProp b (js ''analysisType'') of
                            None \<Rightarrow> JStr (js ''comprehensive'')
                          | Some v \<Rightarrow> v);
                 tRange = (case getProp b (js ''timeRange'') of
                             None \<Rightarrow> JStr (js ''6months'')
                           | Some v \<Rightarrow> v)
             in case batchLoop rt svc aType tRange ws 0 ids (fs, [], []) of
                  (Inl e, fs') \<Rightarrow> (\<lparr>status = 500, body_rs = FailureOf e\<rparr>, fs')
                | (Inr (results, errors), fs') \<Rightarrow>
                    (\<lparr>status = 200,
                      body_rs = BatchOk results errors (length ids) (length results)
                                  (length errors)\<rparr>,
                     fs'))
      | _ \<Rightarrow>
          (\<lparr>status = 400, body_rs = Failure (js ''employeeIds must be a non-empty array'')\<rparr>, fs))"

text \<open>The employees that the data service sees in a state of the files.\<close>

definition knownEmployees :: "files \<Rightarrow> jsobject list" where
  "knownEmployees fs = fst (getAllEmployees fs)"

definition knownId :: "files \<Rightarrow> jsval \<Rightarrow> bool" where
  "knownId fs ident = list_ex (hasId ident) (knownEmployees fs)"

section \<open>What the specification asks of a payload\<close>

text \<open>A score lies in the closed range from 1 to 10.\<close>

definition scoreInRange :: "jsnum \<Rightarrow> bool" where
  "scoreInRange n \<longleftrightarrow> num_le (Fin 1) n \<and> num_le n (Fin 10)"

definition isText :: "jsval \<Rightarrow> bool" where
  "isText v = (case v of JStr _ \<Rightarrow> True | _ \<Rightarrow> False)"

text \<open>
  A payload conforms to the schema when its four scores are in range, its two array
  fields are lists of texts and its three narrative fields are texts.
\<close>

definition schemaConformant :: "employeeAnalysis \<Rightarrow> bool" where
  "schemaConformant d \<longleftrightarrow>
     scoreInRange (overallScore d) \<and> scoreInRange (performanceScore d)
     \<and> scoreInRange (skillsScore d) \<and> scoreInRange (potentialScore d)
     \<and> list_all isText (strengths d) \<and> list_all isText (improvements d)
     \<and> isText (developmentPlan d) \<and> isText (riskAssessment d) \<and> isText (careerPath d)"

text \<open>
  What holds of the payload of a reply that was parsed strictly: the scores are in range
  and no narrative field is empty; the elements of the arrays and the kind of value in
  a narrative field are those of the reply.
\<close>

definition scoresAndNarratives :: "employeeAnalysis \<Rightarrow> bool" where
  "scoresAndNarratives d \<longleftrightarrow>
     scoreInRange (overallScore d) \<and> scoreInRange (performanceScore d)
     \<and> scoreInRange (skillsScore d) \<and> scoreInRange (potentialScore d)
     \<and> truthy (Some (developmentPlan d)) \<and> truthy (Some (riskAssessment d))
     \<and> truthy (Some (careerPath d))"

text \<open>The source tags that the service writes.\<close>

definition sourceTags :: "jstring list" where
  "sourceTags = [js ''openai'', js ''openai-parsed'', js ''mock'']"

text \<open>
  The fields of the subject that the service puts into a template literal. Each of them
  that is present converts to text: it holds no object with a \<open>toString\<close> property of
  its own.
\<close>

definition promptFields :: "jstring list" where
  "promptFields =
     [js ''name'', js ''position'', js ''department'', js ''experience'', js ''joinDate'',
      js ''skills'', js ''specialization'', js ''recentPerformance'', js ''feedback'',
      js ''projectContribution'', js ''analysisType'', js ''timeRange'']"

definition convertsOpt :: "jsval option \<Rightarrow> bool" where
  "convertsOpt v = (case v of None \<Rightarrow> True | Some x \<Rightarrow> convertible x)"

definition fieldsConvert :: "jsobject \<Rightarrow> bool" where
  "fieldsConvert e = list_all (\<lambda>k. convertsOpt (get e k)) promptFields"

text \<open>The analysis log of a state of the files; a file that cannot be read counts as empty.\<close>

definition logOf :: "files \<Rightarrow> analysisRecord list" where
  "logOf fs = (case analysesFile fs of Some xs \<Rightarrow> xs | None \<Rightarrow> [])"


section \<open>Concrete inputs\<close>

text \<open>Neither file exists yet.\<close>

definition noFiles :: files where
  "noFiles = \<lparr>employeesFile = None, analysesFile = None\<rparr>"

definition noExtra :: extraMetadata where
  "noExtra =
     \<lparr>analysisType_x = None, timeRange_x = None, requestId_x = None, batchAnalysis_x = None\<rparr>"

text \<open>
  A runtime for the inputs whose result depends on no parse and on no number: its
  \<open>JSON.parse\<close> rejects every text.
\<close>

definition bareRuntime :: runtime where
  "bareRuntime = \<lparr>JSON_parse = (\<lambda>_. None), numberToString = (\<lambda>_. []), round64 = Fin\<rparr>"




definition offlineService :: openAIService where
  "offlineService =
     \<lparr>client = False, model = js ''gpt-4'', maxTokens = 1500,
      temperature = 3152519739159347 / 4503599627370496\<rparr>"


text \<open>The result of the text path on the reply \<open>ok\<close>.\<close>

definition textResult :: analysisResult where
  "textResult =
     \<lparr>success = True,
      data = \<lparr>
        overallScore = Fin 8.0,
        performanceScore = Fin d8_2,
        skillsScore = Fin d7_8,
        potentialScore = Fin 8.5,
        strengths = [JStr t_strengths],
        improvements = [JStr t_improvements],
        developmentPlan = JStr (js ''ok...''),
        riskAssessment = JStr t_riskAssessment,
        careerPath = JStr t_careerPath\<rparr>,
      source = js ''openai-parsed''\<rparr>"

text \<open>Saving that result for employee 1 under the uuid \<open>u\<close> at the time \<open>t\<close>.\<close>

definition sampleCall :: "jstring \<Rightarrow> nat \<Rightarrow> appendCall" where
  "sampleCall u t =
     \<lparr>uuid_c = u, now_c = t, type_c = js ''employee'', targetId_c = JStr (js ''1''),
      result_c = textResult, extra_c = noExtra\<rparr>"

text \<open>Two analyses of the same employee saved within the same millisecond.\<close>

definition tieCalls :: "appendCall list" where
  "tieCalls = [sampleCall (js ''a'') 5, sampleCall (js ''b'') 5]"

text \<open>A thousand saves into an empty store, with uuids and times that differ.\<close>

definition fullCalls :: "appendCall list" where
  "fullCalls = map (\<lambda>k. sampleCall [k] k) [0..<1000]"

text \<open>The time stamps of a list of records.\<close>

definition timestamps :: "analysisRecord list \<Rightarrow> nat list" where
  "timestamps rs = map (\<lambda>r. timestamp (metadata r)) rs"

definition stillWorld :: world where
  "stillWorld = \<lparr>provider = (\<lambda>_. Rejects), uuid = js ''u'', now = 0\<rparr>"

text \<open>The summary of a batch response: \<open>total\<close>, \<open>successful\<close> and \<open>failed\<close>.\<close>

fun summaryOf :: "response \<Rightarrow> (nat \<times> nat \<times> nat) option" where
  "summaryOf r =
     (case body_rs r of
        BatchOk _ _ t s f \<Rightarrow> Some (t, s, f)
      | _ \<Rightarrow> None)"

text \<open>The ids of the successful and of the failed entries of a batch response.\<close>

fun successfulIds :: "response \<Rightarrow> jsval list" where
  "successfulIds r = (case body_rs r of BatchOk ok _ _ _ _ \<Rightarrow> map fst ok | _ \<Rightarrow> [])"

fun failedIds :: "response \<Rightarrow> jsval list" where
  "failedIds r = (case body_rs r of BatchOk _ bad _ _ _ \<Rightarrow> map fst bad | _ \<Rightarrow> [])"

text \<open>Every employee of the store has fields that convert to text.\<close>

definition storeConverts :: "files \<Rightarrow> bool" where
  "storeConverts fs = list_all fieldsConvert (knownEmployees fs)"

text \<open>
  The store of the specification's scenarios: one employee, with the id E1. The service
  has no client, and the world of every pass is the same.
\<close>

definition storeE1 :: files where
  "storeE1 =
     \<lparr>employeesFile = Some [ [(js ''id'', JStr (js ''E1'')), (js ''name'', JStr (js ''Ann''))] ],
      analysesFile = None\<rparr>"

text \<open>
  The same store after the create route was sent an employee E1 whose position is the
  object \<open>{"toString": 1}\<close>; the route asks of a position only that it is truthy.
\<close>

definition storeOddE1 :: files where
  "storeOddE1 =
     \<lparr>employeesFile =
        Some [ [(js ''id'', JStr (js ''E1'')), (js ''name'', JStr (js ''Ann'')),
                (js ''position'', JObj [(js ''toString'', JNum (Fin 1))]),
                (js ''department'', JStr (js ''R'')),
                (js ''email'', JStr (js ''a@b.c''))] ],
      analysesFile = None\<rparr>"

text \<open>The body of a batch request with these ids and no other property.\<close>

definition idsBody :: "jsval list \<Rightarrow> jsval" where
  "idsBody ids = JObj [(js ''employeeIds'', JArr ids)]"

text \<open>The errors of the failed entries of a batch response.\<close>

fun failedErrors :: "response \<Rightarrow> jsError list" where
  "failedErrors r = (case body_rs r of BatchOk _ bad _ _ _ \<Rightarrow> map snd bad | _ \<Rightarrow> [])"

text \<open>What \<open>JSON.parse\<close> makes of \<open>{"toString": 1}\<close>, sent as an id.\<close>

definition oddId :: jsval where
  "oddId = JObj [(js ''toString'', JNum (Fin 1))]"





section \<open>What the specification asks of the extraction\<close>

text \<open>
  A fenced span of a text, after the code units \<open>pre\<close>: a fence, optionally \<open>json\<close>,
  optional white space, the span \<open>g\<close> from an opening brace to a closing brace, optional
  white space and a fence.
\<close>

definition fencedSpan :: "jstring \<Rightarrow> jstring \<Rightarrow> jstring \<Rightarrow> bool" where
  "fencedSpan content pre g \<longleftrightarrow>
     (\<exists>tag ws1 inner ws2 post.
        content = pre @ fence @ tag @ ws1 @ g @ ws2 @ fence @ post
        \<and> (tag = [] \<or> tag = js ''json'') \<and> list_all isSpace ws1 \<and> list_all isSpace ws2
        \<and> g = lbrace # inner @ [rbrace])"

text \<open>
  The fenced span that starts first in the text and, of those that start there, is the
  longest.
\<close>

definition firstFencedSpan :: "jstring \<Rightarrow> jstring \<Rightarrow> bool" where
  "firstFencedSpan content g \<longleftrightarrow>
     (\<exists>pre. fencedSpan content pre g
        \<and> (\<forall>pre' g'. fencedSpan content pre' g' \<longrightarrow>
              length pre \<le> length pre' \<and> (length pre' = length pre \<longrightarrow> length g' \<le> length g)))"

text \<open>
  The contents of the first fenced code block, for comparison: the text between the
  first fence and the next one.
\<close>

fun untilFence :: "jstring \<Rightarrow> jstring option" where
  "untilFence [] = None"
| "untilFence (c # cs) =
     (if prefix fence (c # cs) then Some [] else map_option ((#) c) (untilFence cs))"

fun firstBlock :: "jstring \<Rightarrow> jstring option" where
  "firstBlock [] = None"
| "firstBlock (c # cs) =
     (if prefix fence (c # cs) then untilFence (drop 3 (c # cs)) else firstBlock cs)"

text \<open>Three replies: two objects and no fence; one fenced block; two fenced blocks.\<close>

definition twoObjects :: jstring where
  "twoObjects = js ''{a:1} or {b:2}''"

definition fencedReply :: jstring where
  "fencedReply = js ''Here: ```json {a:1} ``` done''"

definition twoFences :: jstring where
  "twoFences = js ''```{a}``` and ```{b}```''"

section \<open>The adapter\<close>

lemma interp_converts: "convertsOpt v \<Longrightarrow> \<exists>s. interp rt v = Inr s"
  by (auto simp: interp_def toStr_def convertsOpt_def split: option.splits)

lemma orElse_converts: "convertsOpt a \<Longrightarrow> convertsOpt b \<Longrightarrow> convertsOpt (orElse a b)"
  by (simp add: orElse_def)

lemma text_converts: "convertsOpt (Some (JStr s))"
  by (simp add: convertsOpt_def)

lemma fieldsConvert_get: "fieldsConvert e \<Longrightarrow> k \<in> set promptFields \<Longrightarrow> convertsOpt (get e k)"
  by (simp add: fieldsConvert_def list_all_iff)

lemma skills_converts:
  "convertsOpt (get e (js ''skills'')) \<Longrightarrow>
   \<exists>s. (case get e (js ''skills'') of
           Some (JArr xs) \<Rightarrow> joinArray rt (js '', '') xs
         | _ \<Rightarrow> Inr d_notProvided) = Inr s"
  by (auto simp: convertsOpt_def joinArray_def split: option.splits jsval.splits)

lemma template_total: "(\<forall>x \<in> set xs. \<exists>s. x = Inr s) \<Longrightarrow> \<exists>s. template xs = Inr s"
  by (induction xs) (auto split: sum.splits)

lemma buildEmployeePrompt_converts:
  assumes "fieldsConvert e"
  shows "\<exists>p. buildEmployeePrompt rt e = Inr p"
proof -
  have f: "convertsOpt (get e k)" if "k \<in> set promptFields" for k
    using assms that by (rule fieldsConvert_get)
  have g: "\<exists>s. interp rt (get e k) = Inr s" if "k \<in> set promptFields" for k
    using f [OF that] by (rule interp_converts)
  have h: "\<exists>s. interp rt (orElse (get e k) (Some (JStr d))) = Inr s"
    if "k \<in> set promptFields" for k d
    using f [OF that] by (intro interp_converts orElse_converts text_converts)
  have sp: "\<exists>s. interp rt (orElse (get e (js ''specialization'')) (get e (js ''position''))) = Inr s"
    by (intro interp_converts orElse_converts f) (simp_all add: promptFields_def)
  have sk: "\<exists>s. (case get e (js ''skills'') of
           Some (JArr xs) \<Rightarrow> joinArray rt (js '', '') xs
         | _ \<Rightarrow> Inr d_notProvided) = Inr s"
    by (rule skills_converts, rule f) (simp add: promptFields_def)
  show ?thesis
    unfolding buildEmployeePrompt_def
    by (rule template_total) (auto simp: sp sk intro!: g h simp: promptFields_def)
qed

lemma mock_converts:
  assumes "convertsOpt (get e (js ''name''))" "convertsOpt (get e (js ''position''))"
  shows "\<exists>r. getMockEmployeeAnalysis rt e = Inr r \<and> source r = js ''mock'' \<and> success r
           \<and> schemaConformant (data r) \<and> scoresAndNarratives (data r)"
proof -
  obtain n p where n: "interp rt (get e (js ''name'')) = Inr n"
    and p: "interp rt (get e (js ''position'')) = Inr p"
    using assms interp_converts by blast
  have ne: "m_plan_a \<noteq> []" "m_risk \<noteq> []" "m_career_a \<noteq> []"
    by (simp_all add: m_plan_a_def m_risk_def m_career_a_def)
  show ?thesis
    by (simp add: getMockEmployeeAnalysis_def n p schemaConformant_def scoresAndNarratives_def
        ne isText_def scoreInRange_def d8_2_def d7_8_def d8_7_def)
qed

lemma validateScore_cases:
  "validateScore rt v = Inr r \<Longrightarrow>
   \<exists>n. parseFloat rt v = Inr n
     \<and> r = (case n of
              NaN \<Rightarrow> Fin 7.5
            | NegInf \<Rightarrow> Fin 1
            | Fin x \<Rightarrow> Fin (max 1 (min 10 x))
            | PosInf \<Rightarrow> Fin 10)"
  by (cases "parseFloat rt v"; cases "projr (parseFloat rt v)")
    (auto simp: validateScore_def math_max_def math_min_def Let_def max_def min_def)

lemma validateScore_range: "validateScore rt v = Inr r \<Longrightarrow> scoreInRange r"
proof -
  assume "validateScore rt v = Inr r"
  then obtain n where "r = (case n of
              NaN \<Rightarrow> Fin 7.5
            | NegInf \<Rightarrow> Fin 1
            | Fin x \<Rightarrow> Fin (max 1 (min 10 x))
            | PosInf \<Rightarrow> Fin 10)"
    using validateScore_cases by blast
  then show ?thesis by (cases n) (auto simp: scoreInRange_def)
qed

lemma valueOr_truthy: "d \<noteq> [] \<Longrightarrow> truthy (Some (valueOr v d))"
  by (auto simp: valueOr_def split: option.splits)

lemma validate_sound:
  "validateEmployeeAnalysis rt a = Inr d \<Longrightarrow> scoresAndNarratives d"
  by (auto simp: validateEmployeeAnalysis_def scoresAndNarratives_def validateScore_range
      valueOr_truthy v_developmentPlan_def v_riskAssessment_def v_careerPath_def
      split: if_splits sum.splits)

lemma text_conformant:
  "parseEmployeeTextResponse c = Inr d \<Longrightarrow> schemaConformant d \<and> scoresAndNarratives d"
  by (auto simp: parseEmployeeTextResponse_def schemaConformant_def scoresAndNarratives_def
      scoreInRange_def isText_def d8_2_def d7_8_def
      t_riskAssessment_def t_careerPath_def js_def split: option.splits)

lemma tag_facts:
  "js ''openai-parsed'' \<noteq> js ''openai''" "js ''openai-parsed'' \<noteq> js ''mock''"
  "\<not> includes_js (js ''openai-parsed'') (js ''fallback'')"
  "\<not> includes_js (js ''openai'') (js ''fallback'')"
  "\<not> includes_js (js ''mock'') (js ''fallback'')"
  "js ''openai'' \<noteq> js ''mock''" "js ''mock'' \<noteq> js ''openai''"
  "js ''openai'' \<noteq> js ''openai-parsed''" "js ''mock'' \<noteq> js ''openai-parsed''"
  by (simp_all add: js_def)

lemma parse_result:
  "parseEmployeeAnalysis rt c = Inr r \<Longrightarrow>
     success r \<and> scoresAndNarratives (data r)
     \<and> (source r = js ''openai'' \<or> source r = js ''openai-parsed'' \<and> schemaConformant (data r))"
  by (auto simp: parseEmployeeAnalysis_def strictParse_def validate_sound text_conformant
      split: sum.splits option.splits)

lemma analyzeEmployee_returns:
  assumes "fieldsConvert e"
  shows "\<exists>r. analyzeEmployee rt svc create e = Inr r
       \<and> source r \<in> set sourceTags \<and> success r \<and> scoresAndNarratives (data r)
       \<and> (source r \<noteq> js ''openai'' \<longrightarrow> schemaConformant (data r))"
proof -
  have c: "convertsOpt (get e (js ''name''))" "convertsOpt (get e (js ''position''))"
    using assms by (auto intro!: fieldsConvert_get simp: promptFields_def)
  obtain n where n: "interp rt (get e (js ''name'')) = Inr n"
    using c interp_converts by blast
  obtain p where p: "buildEmployeePrompt rt e = Inr p"
    using assms buildEmployeePrompt_converts by blast
  obtain m where m: "getMockEmployeeAnalysis rt e = Inr m" "source m = js ''mock''" "success m"
    "schemaConformant (data m)" "scoresAndNarratives (data m)"
    using mock_converts [OF c] by blast
  show ?thesis
    using parse_result [of rt]
    by (auto simp: analyzeEmployee_def getFallbackEmployeeAnalysis_def n p m sourceTags_def
        tag_facts split: providerOutcome.splits sum.splits)
qed

lemma rejected_is_mock:
  assumes "fieldsConvert e"
  shows "analyzeEmployee rt \<lparr>client = True, model = m, maxTokens = k, temperature = t\<rparr>
           (\<lambda>_. Rejects) e
         = analyzeEmployee rt \<lparr>client = False, model = m, maxTokens = k, temperature = t\<rparr>
             create e
       \<and> (\<exists>r. analyzeEmployee rt \<lparr>client = True, model = m, maxTokens = k, temperature = t\<rparr>
                (\<lambda>_. Rejects) e = Inr r
            \<and> source r = js ''mock'')"
proof -
  have c: "convertsOpt (get e (js ''name''))" "convertsOpt (get e (js ''position''))"
    using assms by (auto intro!: fieldsConvert_get simp: promptFields_def)
  obtain n where n: "interp rt (get e (js ''name'')) = Inr n"
    using c interp_converts by blast
  obtain p where p: "buildEmployeePrompt rt e = Inr p"
    using assms buildEmployeePrompt_converts by blast
  obtain r where r: "getMockEmployeeAnalysis rt e = Inr r" "source r = js ''mock''"
    using mock_converts [OF c] by blast
  show ?thesis
    by (simp add: analyzeEmployee_def getFallbackEmployeeAnalysis_def n p r)
qed

lemma fieldsConvert_Nil: "fieldsConvert []"
  by (simp add: fieldsConvert_def promptFields_def get_def convertsOpt_def)




text \<open>
  C2, at the failing input. With a client configured and a provider call that rejects,
  the result for a subject whose fields convert to text is the mock result itself,
  source tag \<open>mock\<close> included: the same result as with no client at all.
\<close>

theorem provider_failure_tagged_mock:
  "fieldsConvert employeeData \<Longrightarrow>
   analyzeEmployee rt \<lparr>client = True, model = m, maxTokens = k, temperature = t\<rparr>
       (\<lambda>_. Rejects) employeeData
     = analyzeEmployee rt \<lparr>client = False, model = m, maxTokens = k, temperature = t\<rparr>
         create employeeData
   \<and> (\<exists>r. analyzeEmployee rt
              \<lparr>client = True, model = m, maxTokens = k, temperature = t\<rparr>
              (\<lambda>_. Rejects) employeeData = Inr r
          \<and> source r = js ''mock'')"
  by (rule rejected_is_mock)

theorem provider_failure_tagged_mock_witness:
  "fieldsConvert []
   \<and> (\<exists>r. analyzeEmployee bareRuntime
              \<lparr>client = True, model = js ''gpt-4'', maxTokens = 1500, temperature = 0\<rparr>
              (\<lambda>_. Rejects) [] = Inr r
          \<and> source r = js ''mock'')"
  using provider_failure_tagged_mock [OF fieldsConvert_Nil, of bareRuntime "js ''gpt-4''" 1500 0]
    fieldsConvert_Nil
  by blast

section \<open>Statistics by source\<close>






section \<open>The analysis log\<close>

lemma set_insertBy: "set (insertBy cmp x ys) = insert x (set ys)"
  by (induction ys) auto

lemma set_sortBy: "set (sortBy cmp xs) = set xs"
  by (induction xs) (simp_all add: sortBy_def set_insertBy)

lemma sorted_insertBy:
  "sorted_wrt (\<lambda>a b. timestamp (metadata b) \<le> timestamp (metadata a)) ys \<Longrightarrow>
   sorted_wrt (\<lambda>a b. timestamp (metadata b) \<le> timestamp (metadata a))
     (insertBy byTimestampDesc x ys)"
  by (induction ys) (auto simp: set_insertBy byTimestampDesc_def)

lemma sorted_sortBy:
  "sorted_wrt (\<lambda>a b. timestamp (metadata b) \<le> timestamp (metadata a))
     (sortBy byTimestampDesc xs)"
  by (induction xs) (simp_all add: sortBy_def sorted_insertBy)

lemma slice0_take: "\<exists>k. slice0 n xs = take k xs"
  by (auto simp: slice0_def)

lemma length_slice0: "0 \<le> n \<Longrightarrow> int (length (slice0 n xs)) \<le> n"
  by (simp add: slice0_def)

lemma sorted_wrt_take: "sorted_wrt P xs \<Longrightarrow> sorted_wrt P (take k xs)"
  by (metis append_take_drop_id sorted_wrt_append)

lemma strictEq_eq: "strictEq a b \<Longrightarrow> a = b"
  by (cases a; cases b) auto

lemma history_take:
  "\<exists>k. getAnalysisHistory fs ty i l
         = take k (sortBy byTimestampDesc
                     (filter (\<lambda>a. type_r a = ty \<and> strictEq (targetId a) i) (logOf fs)))"
  using slice0_take [of l "sortBy byTimestampDesc
                     (filter (\<lambda>a. type_r a = ty \<and> strictEq (targetId a) i) (logOf fs))"]
  by (auto simp: getAnalysisHistory_def logOf_def sortBy_def split: option.splits)

lemma history_sub:
  "set (getAnalysisHistory fs ty i l) \<subseteq> {r \<in> set (logOf fs). type_r r = ty \<and> targetId r = i}"
proof -
  obtain k where "getAnalysisHistory fs ty i l
         = take k (sortBy byTimestampDesc
                     (filter (\<lambda>a. type_r a = ty \<and> strictEq (targetId a) i) (logOf fs)))"
    using history_take by blast
  then show ?thesis
    using set_take_subset [of k "sortBy byTimestampDesc
                     (filter (\<lambda>a. type_r a = ty \<and> strictEq (targetId a) i) (logOf fs))"]
    by (auto simp: set_sortBy dest: strictEq_eq)
qed

lemma history_sorted:
  "sorted_wrt (\<lambda>a b. timestamp (metadata b) \<le> timestamp (metadata a)) (getAnalysisHistory fs ty i l)"
proof -
  obtain k where "getAnalysisHistory fs ty i l
         = take k (sortBy byTimestampDesc
                     (filter (\<lambda>a. type_r a = ty \<and> strictEq (targetId a) i) (logOf fs)))"
    using history_take by blast
  then show ?thesis
    by (simp add: sorted_sortBy sorted_wrt_take)
qed

lemma history_length: "0 \<le> l \<Longrightarrow> int (length (getAnalysisHistory fs ty i l)) \<le> l"
  by (auto simp: getAnalysisHistory_def length_slice0 split: option.splits)

lemma logOf_append1:
  "logOf (append1 fs c) =
     (if length (logOf fs) < 1000 then logOf fs else drop (length (logOf fs) - 999) (logOf fs))
     @ [fst (saveAnalysis fs (uuid_c c) (now_c c) (type_c c) (targetId_c c) (result_c c) (extra_c c))]"
  by (auto simp: append1_def saveAnalysis_def logOf_def Let_def split: option.splits)

lemma id_saved: "id_r (fst (saveAnalysis fs u n ty i res ex)) = u"
  by (simp add: saveAnalysis_def Let_def)

lemma length_append1: "length (logOf (append1 fs c)) = min 1000 (Suc (length (logOf fs)))"
  by (auto simp: logOf_append1)

lemma length_appends: "length (logOf fs) \<le> 1000 \<Longrightarrow> length (logOf (appends fs cs)) \<le> 1000"
  by (induction cs arbitrary: fs) (simp_all add: appends_def length_append1)

lemma ids_append1:
  "set (map id_r (logOf (append1 fs c))) \<subseteq> insert (uuid_c c) (set (map id_r (logOf fs)))"
  using set_drop_subset [of "length (logOf fs) - 999" "logOf fs"]
  by (auto simp: logOf_append1 id_saved)

lemma ids_appends:
  "set (map id_r (logOf (appends fs cs))) \<subseteq> set (map id_r (logOf fs)) \<union> set (map uuid_c cs)"
proof (induction cs arbitrary: fs)
  case Nil
  then show ?case by (simp add: appends_def)
next
  case (Cons c cs)
  have "appends fs (c # cs) = appends (append1 fs c) cs" by (simp add: appends_def)
  then show ?case using Cons [of "append1 fs c"] ids_append1 [of fs c] by auto
qed

lemma appends_snoc: "appends fs (cs @ [c]) = append1 (appends fs cs) c"
  by (simp add: appends_def)

lemma full_append1:
  "length (logOf fs) = 1000 \<Longrightarrow>
   logOf (append1 fs c) = tl (logOf fs) @ [fst (saveAnalysis fs (uuid_c c) (now_c c) (type_c c) (targetId_c c) (result_c c) (extra_c c))]"
  by (simp add: logOf_append1 drop_Suc)

lemma distinct_map_insertBy:
  "distinct (map f (insertBy cmp x ys)) = distinct (map f (x # ys))"
  by (induction ys) (auto simp: set_insertBy)

lemma distinct_map_sortBy: "distinct (map f (sortBy cmp xs)) = distinct (map f xs)"
  by (induction xs) (simp_all add: sortBy_def distinct_map_insertBy set_sortBy [unfolded sortBy_def])

lemma strict_of_distinct:
  "sorted_wrt (\<ge>) (ts :: nat list) \<Longrightarrow> distinct ts \<Longrightarrow> sorted_wrt (>) ts"
  by (induction ts) (auto simp: le_less)

lemma history_distinct:
  assumes d: "distinct (timestamps (filter (\<lambda>a. type_r a = ty \<and> targetId a = i) (logOf fs)))"
  shows "distinct (timestamps (getAnalysisHistory fs ty i l))"
proof -
  let ?P = "\<lambda>a. type_r a = ty \<and> targetId a = i"
  let ?Q = "\<lambda>a. type_r a = ty \<and> strictEq (targetId a) i"
  obtain k where k: "getAnalysisHistory fs ty i l
         = take k (sortBy byTimestampDesc (filter ?Q (logOf fs)))"
    using history_take by blast
  have "filter ?Q (logOf fs) = filter ?Q (filter ?P (logOf fs))"
    by (auto simp: strictEq_eq intro!: filter_cong)
  then have "distinct (map (\<lambda>r. timestamp (metadata r)) (filter ?Q (logOf fs)))"
    using d distinct_map_filter [of "\<lambda>r. timestamp (metadata r)" "filter ?P (logOf fs)" ?Q]
    by (simp add: timestamps_def)
  then show ?thesis
    using distinct_take [of "map (\<lambda>r. timestamp (metadata r))
                                (sortBy byTimestampDesc (filter ?Q (logOf fs)))" k]
    by (simp add: k timestamps_def distinct_map_sortBy take_map)
qed

lemma saved_record:
  "fst (saveAnalysis fs u n ty i res ex) =
     \<lparr>id_r = u, type_r = ty, targetId = i, analysis = data res,
      metadata = \<lparr>source_md = source res, success_md = success res, timestamp = n,
        analysisType_md = analysisType_x ex, timeRange_md = timeRange_x ex,
        requestId = requestId_x ex, batchAnalysis = batchAnalysis_x ex\<rparr>\<rparr>"
  by (simp add: saveAnalysis_def Let_def)

lemma tie_log:
  "logOf (appends noFiles tieCalls) =
     [fst (saveAnalysis noFiles (js ''a'') 5 (js ''employee'') (JStr (js ''1'')) textResult noExtra),
      fst (saveAnalysis noFiles (js ''b'') 5 (js ''employee'') (JStr (js ''1'')) textResult noExtra)]"
  by (simp add: appends_def tieCalls_def logOf_append1 sampleCall_def saved_record)
    (simp add: noFiles_def logOf_def)

lemma tie_file: "analysesFile (appends noFiles tieCalls) = Some (logOf (appends noFiles tieCalls))"
  by (simp add: appends_def tieCalls_def append1_def saveAnalysis_def Let_def logOf_def)

lemma tie_history:
  "timestamps (getAnalysisHistory (appends noFiles tieCalls) (js ''employee'') (JStr (js ''1'')) 10) = [5, 5]"
  "length (getAnalysisHistory (appends noFiles tieCalls) (js ''employee'') (JStr (js ''1'')) (- 1)) = 1"
  "getAnalysisHistory (appends noFiles tieCalls) (js ''team'') (JStr (js ''1'')) 10 = []"
  by (simp_all add: getAnalysisHistory_def tie_file tie_log saved_record sortBy_def
      byTimestampDesc_def slice0_def timestamps_def js_def)

lemma full_log:
  "n \<le> 1000 \<Longrightarrow>
   logOf (appends noFiles (map (\<lambda>k. sampleCall [k] k) [0..<n]))
     = map (\<lambda>k. fst (saveAnalysis noFiles [k] k (js ''employee'') (JStr (js ''1''))
                      textResult noExtra)) [0..<n]"
proof (induction n)
  case 0
  then show ?case by (simp add: appends_def logOf_def noFiles_def)
next
  case (Suc n)
  then show ?case
    by (simp add: appends_snoc logOf_append1 sampleCall_def saved_record)
qed

lemma full_log_calls:
  "logOf (appends noFiles fullCalls)
     = map (\<lambda>k. fst (saveAnalysis noFiles [k] k (js ''employee'') (JStr (js ''1''))
                      textResult noExtra)) [0..<1000]"
  by (simp add: fullCalls_def full_log)

lemma full_facts:
  "length (logOf (appends noFiles fullCalls)) = 1000"
  "map id_r (logOf (appends noFiles fullCalls)) = map (\<lambda>k. [k]) [0..<1000]"
  "hd (logOf (appends noFiles fullCalls))
     = fst (saveAnalysis noFiles [0] 0 (js ''employee'') (JStr (js ''1''))
              textResult noExtra)"
  by (simp_all add: full_log_calls id_saved comp_def hd_map)

text \<open>
  C4, as amended. After any sequence of saves, whatever the type, the id and the limit, a
  history query returns records of the log that have that type and that id, in descending
  order of time stamp with equal time stamps allowed (strictly descending when the time
  stamps of the matching records are distinct), and at most \<open>limit\<close> of them when the limit
  is not negative; when no record matches, it returns the empty list.
\<close>

theorem getAnalysisHistory_order:
  "(\<forall>r \<in> set (getAnalysisHistory (appends fs cs) ty i l).
      r \<in> set (logOf (appends fs cs)) \<and> type_r r = ty \<and> targetId r = i)
   \<and> sorted_wrt (\<ge>) (timestamps (getAnalysisHistory (appends fs cs) ty i l))
   \<and> (0 \<le> l \<longrightarrow> int (length (getAnalysisHistory (appends fs cs) ty i l)) \<le> l)
   \<and> ((\<forall>r \<in> set (logOf (appends fs cs)). \<not> (type_r r = ty \<and> targetId r = i))
        \<longrightarrow> getAnalysisHistory (appends fs cs) ty i l = [])
   \<and> (distinct (timestamps (filter (\<lambda>a. type_r a = ty \<and> targetId a = i)
                                  (logOf (appends fs cs))))
        \<longrightarrow> sorted_wrt (>) (timestamps (getAnalysisHistory (appends fs cs) ty i l)))"
proof -
  let ?h = "getAnalysisHistory (appends fs cs) ty i l"
  have sub: "set ?h \<subseteq> {r \<in> set (logOf (appends fs cs)). type_r r = ty \<and> targetId r = i}"
    by (rule history_sub)
  have desc: "sorted_wrt (\<ge>) (timestamps ?h)"
    using history_sorted [of "appends fs cs" ty i l]
    by (simp add: timestamps_def sorted_wrt_map)
  have len: "0 \<le> l \<longrightarrow> int (length ?h) \<le> l"
    by (simp add: history_length)
  have none: "(\<forall>r \<in> set (logOf (appends fs cs)). \<not> (type_r r = ty \<and> targetId r = i))
        \<longrightarrow> ?h = []"
    using sub by (cases ?h) auto
  have strict: "distinct (timestamps (filter (\<lambda>a. type_r a = ty \<and> targetId a = i)
                                  (logOf (appends fs cs))))
        \<longrightarrow> sorted_wrt (>) (timestamps ?h)"
    using desc history_distinct [of ty i "appends fs cs" l] strict_of_distinct by blast
  from sub have "\<forall>r \<in> set ?h. r \<in> set (logOf (appends fs cs)) \<and> type_r r = ty \<and> targetId r = i"
    by blast
  with desc len none strict show ?thesis by blast
qed

theorem getAnalysisHistory_order_witness:
  "(0::int) \<le> 1
   \<and> int (length (getAnalysisHistory (appends noFiles tieCalls) (js ''employee'') (JStr (js ''1'')) 1))
        \<le> 1
   \<and> sorted_wrt (\<ge>)
        (timestamps (getAnalysisHistory (appends noFiles tieCalls) (js ''employee'') (JStr (js ''1'')) 1))
   \<and> getAnalysisHistory (appends noFiles tieCalls) (js ''team'') (JStr (js ''1'')) 1 = []"
proof -
  have none: "\<forall>r \<in> set (logOf (appends noFiles tieCalls)).
      \<not> (type_r r = js ''team'' \<and> targetId r = JStr (js ''1''))"
    by (simp add: tie_log saved_record js_def)
  have pos: "(0::int) \<le> 1" by simp
  show ?thesis
    using none pos
      getAnalysisHistory_order [of noFiles tieCalls "js ''employee''" "JStr (js ''1'')" 1]
      getAnalysisHistory_order [of noFiles tieCalls "js ''team''" "JStr (js ''1'')" 1]
    by blast
qed

text \<open>
  C4, as stated, fails. Two analyses of one employee saved within the same millisecond
  come back with equal time stamps, so the order is not strict; and with the limit -1 the
  query returns one record, which is more than the limit.
\<close>

theorem history_ties_counterexample:
  "\<not> sorted_wrt (>)
       (timestamps (getAnalysisHistory (appends noFiles tieCalls) (js ''employee'') (JStr (js ''1'')) 10))
   \<and> \<not> int (length (getAnalysisHistory (appends noFiles tieCalls) (js ''employee'') (JStr (js ''1'')) (- 1)))
         \<le> - 1"
  by (simp add: tie_history)

text \<open>
  C3. After at least one save the log holds at most 1000 records, and a log within the
  cap stays within it under any sequence of saves. A save into a full log keeps the log at
  1000 records: the new record is the last, and the records before it are the old log
  without its first, so the record evicted is exactly the oldest. When the uuids are
  distinct, that oldest record is in no later log and in the result of no later history
  query.
\<close>

theorem log_capped_fifo:
  "length (logOf (appends fs (cs @ [c]))) \<le> 1000
   \<and> (length (logOf fs) \<le> 1000 \<longrightarrow> length (logOf (appends fs cs)) \<le> 1000)
   \<and> (length (logOf fs) = 1000 \<longrightarrow>
        length (logOf (append1 fs c)) = 1000
        \<and> butlast (logOf (append1 fs c)) = tl (logOf fs)
        \<and> id_r (last (logOf (append1 fs c))) = uuid_c c
        \<and> (distinct (map id_r (logOf fs) @ map uuid_c (c # cs)) \<longrightarrow>
             hd (logOf fs) \<notin> set (logOf (appends (append1 fs c) cs))
             \<and> hd (logOf fs) \<notin> set (getAnalysisHistory (appends (append1 fs c) cs) ty i l)))"
proof -
  have a: "length (logOf (appends fs (cs @ [c]))) \<le> 1000"
    by (simp add: appends_snoc length_append1)
  have b: "hd (logOf fs) \<notin> set (logOf (appends (append1 fs c) cs))"
    if full: "length (logOf fs) = 1000"
      and d: "distinct (map id_r (logOf fs) @ map uuid_c (c # cs))"
  proof
    assume mem: "hd (logOf fs) \<in> set (logOf (appends (append1 fs c) cs))"
    obtain x xs where xs: "logOf fs = x # xs" using full by (cases "logOf fs") auto
    have "id_r x \<in> set (map id_r (logOf (append1 fs c))) \<union> set (map uuid_c cs)"
      using mem ids_appends [of "append1 fs c" cs] xs by auto
    moreover have "set (map id_r (logOf (append1 fs c))) = set (map id_r xs) \<union> {uuid_c c}"
      using full xs by (simp add: full_append1 id_saved)
    ultimately show False using d xs by auto
  qed
  show ?thesis
    using a b history_sub [of "appends (append1 fs c) cs" ty i l]
    by (auto simp: length_appends full_append1 id_saved length_append1)
qed

theorem log_capped_fifo_witness:
  "length (logOf (appends noFiles fullCalls)) = 1000
   \<and> distinct (map id_r (logOf (appends noFiles fullCalls)) @ map uuid_c [sampleCall [1000] 1000])
   \<and> length (logOf (append1 (appends noFiles fullCalls) (sampleCall [1000] 1000))) = 1000
   \<and> id_r (hd (logOf (appends noFiles fullCalls))) = [0]
   \<and> (\<forall>ty i l. hd (logOf (appends noFiles fullCalls))
          \<notin> set (getAnalysisHistory
                    (appends (append1 (appends noFiles fullCalls) (sampleCall [1000] 1000)) [])
                    ty i l))"
proof -
  have full: "length (logOf (appends noFiles fullCalls)) = 1000"
    by (simp add: full_facts)
  have d: "distinct (map id_r (logOf (appends noFiles fullCalls))
             @ map uuid_c [sampleCall [1000] 1000])"
    by (simp add: full_facts sampleCall_def distinct_map inj_on_def image_iff)
  have h: "id_r (hd (logOf (appends noFiles fullCalls))) = [0]"
    by (simp add: full_facts id_saved)
  show ?thesis
    using full d h
      log_capped_fifo [of "appends noFiles fullCalls" "[]" "sampleCall [1000] 1000"]
    by blast
qed

section \<open>The orchestration handlers\<close>

lemma includes_js_append: "includes_js ys sub \<Longrightarrow> includes_js (xs @ ys) sub"
  by (induction xs) auto

lemma not_found_message:
  "isNotFound (Error (js ''Employee with id '' @ ident @ js '' not found''))"
proof -
  have "includes_js (js '' not found'') (js ''not found'')" by (simp add: js_def)
  then have "includes_js ((js ''Employee with id '' @ ident) @ js '' not found'') (js ''not found'')"
    by (rule includes_js_append)
  then show ?thesis by (simp add: isNotFound_def)
qed

lemma getAllEmployees_state:
  "\<exists>fs1. getAllEmployees fs = (knownEmployees fs, fs1)
     \<and> analysesFile fs1 = analysesFile fs \<and> knownEmployees fs1 = knownEmployees fs"
  by (simp add: getAllEmployees_def knownEmployees_def split: option.splits)

lemma getEmployee_unknown:
  assumes "\<not> knownId fs ident" "toStr rt ident = Inr s"
  shows "\<exists>fs1. getEmployee rt fs ident
           = (Inl (Error (js ''Employee with id '' @ s @ js '' not found'')), fs1)
     \<and> analysesFile fs1 = analysesFile fs \<and> knownEmployees fs1 = knownEmployees fs"
proof -
  have "find (hasId ident) (knownEmployees fs) = None"
    using assms(1) by (simp add: knownId_def find_None_iff list_ex_iff)
  then show ?thesis
    using getAllEmployees_state [of fs] assms(2) by (auto simp: getEmployee_def)
qed

lemma find_SomeD: "find P xs = Some x \<Longrightarrow> x \<in> set xs \<and> P x"
  by (induction xs) (auto split: if_splits)

lemma getEmployee_known:
  assumes "knownId fs ident"
  shows "\<exists>emp fs1. getEmployee rt fs ident = (Inr emp, fs1) \<and> emp \<in> set (knownEmployees fs)
     \<and> analysesFile fs1 = analysesFile fs \<and> knownEmployees fs1 = knownEmployees fs"
proof -
  have "find (hasId ident) (knownEmployees fs) \<noteq> None"
    using assms by (auto simp: knownId_def find_None_iff list_ex_iff)
  then obtain emp where f: "find (hasId ident) (knownEmployees fs) = Some emp"
    by blast
  then have "emp \<in> set (knownEmployees fs)" using find_SomeD by fastforce
  then show ?thesis
    using getAllEmployees_state [of fs] f by (auto simp: getEmployee_def)
qed

lemma saveAnalysis_employees:
  "knownEmployees (snd (saveAnalysis fs u n ty i res ex)) = knownEmployees fs"
  by (simp add: saveAnalysis_def Let_def knownEmployees_def getAllEmployees_def split: option.splits)

lemma knownId_cong: "knownEmployees fs1 = knownEmployees fs \<Longrightarrow> knownId fs1 = knownId fs"
  by (auto simp: knownId_def fun_eq_iff)

lemma storeConverts_cong:
  "knownEmployees fs1 = knownEmployees fs \<Longrightarrow> storeConverts fs1 = storeConverts fs"
  by (simp add: storeConverts_def)

lemma analyze_unknown:
  assumes "\<not> knownId fs (JStr (params_id req))"
  shows "status (fst (analyzeRoute rt svc w fs req)) = 404
   \<and> body_rs (fst (analyzeRoute rt svc w fs req)) = Failure (js ''Employee not found'')
   \<and> analysesFile (snd (analyzeRoute rt svc w fs req)) = analysesFile fs"
proof -
  have "toStr rt (JStr (params_id req)) = Inr (params_id req)" by (simp add: toStr_def)
  with assms obtain fs1 where
    g: "getEmployee rt fs (JStr (params_id req))
          = (Inl (Error (js ''Employee with id '' @ params_id req @ js '' not found'')), fs1)"
    and f: "analysesFile fs1 = analysesFile fs"
    using getEmployee_unknown by blast
  show ?thesis
    by (simp add: analyzeRoute_def g f errorResponse_def not_found_message)
qed

text \<open>
  C7. When no employee of the store has the id of the request, the analyze route answers
  with status 404 and the error text "Employee not found", and the analysis log is left
  as it was.
\<close>

theorem analyze_unknown_id:
  "\<not> knownId fs (JStr (params_id req)) \<Longrightarrow>
   status (fst (analyzeRoute rt svc w fs req)) = 404
   \<and> body_rs (fst (analyzeRoute rt svc w fs req)) = Failure (js ''Employee not found'')
   \<and> analysesFile (snd (analyzeRoute rt svc w fs req)) = analysesFile fs"
  by (rule analyze_unknown)

lemma storeE1_ids:
  "knownId storeE1 (JStr (js ''E1''))" "\<not> knownId storeE1 (JStr (js ''BAD_ID''))"
  by (simp_all add: knownId_def knownEmployees_def getAllEmployees_def storeE1_def hasId_def
      get_def js_def)

theorem analyze_unknown_id_witness:
  "\<not> knownId storeE1 (JStr (js ''BAD_ID''))
   \<and> status (fst (analyzeRoute bareRuntime offlineService stillWorld storeE1
        \<lparr>params_id = js ''BAD_ID'', body = JObj [], x_request_id = None\<rparr>)) = 404
   \<and> analysesFile (snd (analyzeRoute bareRuntime offlineService stillWorld storeE1
        \<lparr>params_id = js ''BAD_ID'', body = JObj [], x_request_id = None\<rparr>)) = None"
proof -
  have u: "\<not> knownId storeE1
      (JStr (params_id \<lparr>params_id = js ''BAD_ID'', body = JObj [], x_request_id = None\<rparr>))"
    by (simp add: storeE1_ids)
  have "analysesFile storeE1 = None" by (simp add: storeE1_def)
  then show ?thesis
    using analyze_unknown_id [OF u, of bareRuntime offlineService stillWorld] storeE1_ids(2)
    by simp
qed

lemma analysisData_converts:
  assumes "fieldsConvert emp" "convertible aT" "convertible tR"
  shows "fieldsConvert (setProp (js ''timeRange'') (Some tR)
                          (setProp (js ''analysisType'') (Some aT) emp))"
  using assms
  by (simp add: fieldsConvert_def promptFields_def setProp_def get_def convertsOpt_def js_def)

lemma batchPass_known:
  assumes "knownId fs ident" "storeConverts fs" "convertible aT" "convertible tR"
  shows "\<exists>entry fs1. batchPass rt svc aT tR w fs ident = (Inr entry, fs1) \<and> fst entry = ident
           \<and> knownEmployees fs1 = knownEmployees fs"
proof -
  obtain emp fs1 where g: "getEmployee rt fs ident = (Inr emp, fs1)"
    and m: "emp \<in> set (knownEmployees fs)" and ke: "knownEmployees fs1 = knownEmployees fs"
    using getEmployee_known [OF assms(1)] by blast
  have "fieldsConvert emp" using m assms(2) by (simp add: storeConverts_def list_all_iff)
  then have "fieldsConvert (setProp (js ''timeRange'') (Some tR)
                          (setProp (js ''analysisType'') (Some aT) emp))"
    using assms(3,4) by (rule analysisData_converts)
  then obtain r where
    a: "analyzeEmployee rt svc (provider w)
          (setProp (js ''timeRange'') (Some tR) (setProp (js ''analysisType'') (Some aT) emp))
        = Inr r"
    using analyzeEmployee_returns by blast
  show ?thesis
    by (simp add: batchPass_def g a Let_def split_beta saveAnalysis_employees ke)
qed

lemma batchPass_unknown:
  assumes "\<not> knownId fs ident" "convertible ident"
  shows "\<exists>e fs1. batchPass rt svc aT tR w fs ident = (Inl e, fs1) \<and> isNotFound e
           \<and> knownEmployees fs1 = knownEmployees fs"
proof -
  have "toStr rt ident = Inr (toText rt ident)" using assms(2) by (simp add: toStr_def)
  then obtain fs1 where
    "getEmployee rt fs ident
       = (Inl (Error (js ''Employee with id '' @ toText rt ident @ js '' not found'')), fs1)"
    "knownEmployees fs1 = knownEmployees fs"
    using getEmployee_unknown [OF assms(1)] by blast
  then show ?thesis by (simp add: batchPass_def not_found_message)
qed

lemma batchLoop_ids:
  assumes "convertible aT" "convertible tR"
  shows "list_all convertible ids \<Longrightarrow> storeConverts fs \<Longrightarrow>
   \<exists>fs' results' errors'.
     batchLoop rt svc aT tR ws k ids (fs, results, errors) = (Inr (results', errors'), fs')
     \<and> map fst results' = map fst results @ filter (knownId fs) ids
     \<and> map fst errors' = map fst errors @ filter (\<lambda>i. \<not> knownId fs i) ids
     \<and> (list_all (\<lambda>p. isNotFound (snd p)) errors \<longrightarrow> list_all (\<lambda>p. isNotFound (snd p)) errors')"
proof (induction ids arbitrary: fs results errors k)
  case Nil
  then show ?case by simp
next
  case (Cons ident ids)
  have ci: "convertible ident" and cs: "list_all convertible ids" using Cons.prems(1) by simp_all
  show ?case
  proof (cases "knownId fs ident")
    case False
    then obtain e fs1 where
      g: "batchPass rt svc aT tR (ws k) fs ident = (Inl e, fs1)" and nf: "isNotFound e"
      and ke: "knownEmployees fs1 = knownEmployees fs"
      using batchPass_unknown [OF _ ci] by blast
    have sc: "storeConverts fs1" using Cons.prems(2) by (simp add: storeConverts_cong [OF ke])
    have t: "toStr rt ident = Inr (toText rt ident)" using ci by (simp add: toStr_def)
    from Cons.IH [OF cs sc, of "Suc k" results "errors @ [(ident, e)]"] show ?thesis
      using False nf by (simp add: g t knownId_cong [OF ke])
  next
    case True
    then obtain entry fs1 where
      g: "batchPass rt svc aT tR (ws k) fs ident = (Inr entry, fs1)" and en: "fst entry = ident"
      and ke: "knownEmployees fs1 = knownEmployees fs"
      using batchPass_known [OF _ Cons.prems(2) assms] by blast
    have sc: "storeConverts fs1" using Cons.prems(2) by (simp add: storeConverts_cong [OF ke])
    from Cons.IH [OF cs sc, of "Suc k" "results @ [entry]" errors] show ?thesis
      using True en by (simp add: g knownId_cong [OF ke])
  qed
qed

lemma mset_filter_length:
  "mset xs = mset ys \<Longrightarrow> length (filter P xs) = length (filter P ys)"
  by (metis mset_filter size_mset)


lemma batchRoute_lists:
  assumes "getProp b (js ''employeeIds'') = Some (JArr ids)" "ids \<noteq> []"
    "list_all convertible ids" "storeConverts fs"
    "convertsOpt (getProp b (js ''analysisType''))" "convertsOpt (getProp b (js ''timeRange''))"
  shows "\<exists>fs' ok bad.
     batchRoute rt svc ws fs b
       = (\<lparr>status = 200, body_rs = BatchOk ok bad (length ids) (length ok) (length bad)\<rparr>, fs')
     \<and> map fst ok = filter (knownId fs) ids
     \<and> map fst bad = filter (\<lambda>i. \<not> knownId fs i) ids
     \<and> list_all (\<lambda>p. isNotFound (snd p)) bad"
proof -
  let ?aT = "case getProp b (js ''analysisType'') of
               None \<Rightarrow> JStr (js ''comprehensive'') | Some v \<Rightarrow> v"
  let ?tR = "case getProp b (js ''timeRange'') of None \<Rightarrow> JStr (js ''6months'') | Some v \<Rightarrow> v"
  have c: "convertible ?aT" "convertible ?tR"
    using assms(5,6) by (auto simp: convertsOpt_def split: option.splits)
  obtain fs' ok bad where
    l: "batchLoop rt svc ?aT ?tR ws 0 ids (fs, [], []) = (Inr (ok, bad), fs')"
    and m: "map fst ok = filter (knownId fs) ids"
      "map fst bad = filter (\<lambda>i. \<not> knownId fs i) ids"
      "list_all (\<lambda>p. isNotFound (snd p)) bad"
    using batchLoop_ids [OF c assms(3,4), of rt svc ws 0 "[]" "[]"]
    by auto
  then show ?thesis
    using assms(1,2) by (simp add: batchRoute_def)
qed

lemma batchRoute_summary:
  assumes "getProp b (js ''employeeIds'') = Some (JArr ids)" "ids \<noteq> []"
    "list_all convertible ids" "storeConverts fs"
    "convertsOpt (getProp b (js ''analysisType''))" "convertsOpt (getProp b (js ''timeRange''))"
  shows "status (fst (batchRoute rt svc ws fs b)) = 200
   \<and> successfulIds (fst (batchRoute rt svc ws fs b)) = filter (knownId fs) ids
   \<and> failedIds (fst (batchRoute rt svc ws fs b)) = filter (\<lambda>i. \<not> knownId fs i) ids
   \<and> list_all isNotFound (failedErrors (fst (batchRoute rt svc ws fs b)))
   \<and> summaryOf (fst (batchRoute rt svc ws fs b))
      = Some (length ids, length (filter (knownId fs) ids),
              length (filter (\<lambda>i. \<not> knownId fs i) ids))"
proof -
  from batchRoute_lists [OF assms, of rt svc ws] obtain fs' ok bad where
    r: "batchRoute rt svc ws fs b
       = (\<lparr>status = 200, body_rs = BatchOk ok bad (length ids) (length ok) (length bad)\<rparr>, fs')"
    and ok: "map fst ok = filter (knownId fs) ids"
    and bad: "map fst bad = filter (\<lambda>i. \<not> knownId fs i) ids"
    and nf: "list_all (\<lambda>p. isNotFound (snd p)) bad"
    by blast
  have "length ok = length (filter (knownId fs) ids)"
    using ok by (metis length_map)
  moreover have "length bad = length (filter (\<lambda>i. \<not> knownId fs i) ids)"
    using bad by (metis length_map)
  moreover have "list_all isNotFound (map snd bad)"
    using nf by (simp add: list_all_iff)
  ultimately show ?thesis
    using r ok bad by simp
qed

lemma batch_summary_perm:
  assumes "getProp b (js ''employeeIds'') = Some (JArr ids)" "ids \<noteq> []"
    "list_all convertible ids" "storeConverts fs"
    "convertsOpt (getProp b (js ''analysisType''))" "convertsOpt (getProp b (js ''timeRange''))"
    "getProp b' (js ''employeeIds'') = Some (JArr ids')" "mset ids' = mset ids"
    "convertsOpt (getProp b' (js ''analysisType''))" "convertsOpt (getProp b' (js ''timeRange''))"
  shows "summaryOf (fst (batchRoute rt svc ws' fs b')) = summaryOf (fst (batchRoute rt svc ws fs b))"
proof -
  have ne': "ids' \<noteq> []" using assms(2,8) by auto
  have c': "list_all convertible ids'"
    using assms(3,8) by (metis list_all_iff set_mset_mset)
  have "length ids' = length ids" using assms(8) by (metis size_mset)
  then show ?thesis
    using batchRoute_summary [OF assms(1-6), of rt svc ws]
      batchRoute_summary [OF assms(7) ne' c' assms(4,9,10), of rt svc ws']
      mset_filter_length [OF assms(8)]
    by simp
qed

text \<open>
  C8, as amended. Take a store in which the fields of every employee convert to text, and
  a request whose analysis type and time range, when present, convert to text. For every
  non-empty list of ids that convert to text, the batch route answers with status 200;
  the successful entries are the known ids of the list and the failed entries the unknown
  ones, each in the order of the list, and every failed entry carries a not-found error;
  the summary holds the length of the list, the number of known ids and the number of
  unknown ids, and the first is the sum of the other two. The summary is the same for
  every reordering of the list, whatever the worlds of the passes.
\<close>

theorem batch_counts:
  "getProp b (js ''employeeIds'') = Some (JArr ids) \<Longrightarrow> ids \<noteq> [] \<Longrightarrow>
   list_all convertible ids \<Longrightarrow> storeConverts fs \<Longrightarrow>
   convertsOpt (getProp b (js ''analysisType'')) \<Longrightarrow>
   convertsOpt (getProp b (js ''timeRange'')) \<Longrightarrow>
   status (fst (batchRoute rt svc ws fs b)) = 200
   \<and> successfulIds (fst (batchRoute rt svc ws fs b)) = filter (knownId fs) ids
   \<and> failedIds (fst (batchRoute rt svc ws fs b)) = filter (\<lambda>i. \<not> knownId fs i) ids
   \<and> list_all isNotFound (failedErrors (fst (batchRoute rt svc ws fs b)))
   \<and> summaryOf (fst (batchRoute rt svc ws fs b))
      = Some (length ids, length (filter (knownId fs) ids),
              length (filter (\<lambda>i. \<not> knownId fs i) ids))
   \<and> length ids
      = length (filter (knownId fs) ids) + length (filter (\<lambda>i. \<not> knownId fs i) ids)
   \<and> (\<forall>b' ids' ws'.
         getProp b' (js ''employeeIds'') = Some (JArr ids') \<and> mset ids' = mset ids
         \<and> convertsOpt (getProp b' (js ''analysisType''))
         \<and> convertsOpt (getProp b' (js ''timeRange''))
         \<longrightarrow> summaryOf (fst (batchRoute rt svc ws' fs b'))
             = summaryOf (fst (batchRoute rt svc ws fs b)))"
proof -
  assume a: "getProp b (js ''employeeIds'') = Some (JArr ids)" "ids \<noteq> []"
    "list_all convertible ids" "storeConverts fs"
    "convertsOpt (getProp b (js ''analysisType''))" "convertsOpt (getProp b (js ''timeRange''))"
  have "length ids
      = length (filter (knownId fs) ids) + length (filter (\<lambda>i. \<not> knownId fs i) ids)"
    using sum_length_filter_compl [of "knownId fs" ids] by simp
  with batch_summary_perm [OF a, of _ _ rt svc _ ws] batchRoute_summary [OF a, of rt svc ws]
  show ?thesis by blast
qed

text \<open>The fifth scenario of the specification: one known id and one unknown id.\<close>

lemma idsBody_props:
  "getProp (idsBody ids) (js ''employeeIds'') = Some (JArr ids)"
  "getProp (idsBody ids) (js ''analysisType'') = None"
  "getProp (idsBody ids) (js ''timeRange'') = None"
  by (simp_all add: idsBody_def js_def)

lemma storeE1_converts: "storeConverts storeE1"
  by (simp add: storeConverts_def knownEmployees_def getAllEmployees_def storeE1_def
      fieldsConvert_def promptFields_def get_def convertsOpt_def js_def)

theorem batch_counts_witness:
  "getProp (idsBody [JStr (js ''E1''), JStr (js ''BAD_ID'')]) (js ''employeeIds'')
     = Some (JArr [JStr (js ''E1''), JStr (js ''BAD_ID'')])
   \<and> [JStr (js ''E1''), JStr (js ''BAD_ID'')] \<noteq> []
   \<and> list_all convertible [JStr (js ''E1''), JStr (js ''BAD_ID'')]
   \<and> storeConverts storeE1
   \<and> convertsOpt (getProp (idsBody [JStr (js ''E1''), JStr (js ''BAD_ID'')]) (js ''analysisType''))
   \<and> convertsOpt (getProp (idsBody [JStr (js ''E1''), JStr (js ''BAD_ID'')]) (js ''timeRange''))
   \<and> summaryOf (fst (batchRoute bareRuntime offlineService (\<lambda>_. stillWorld) storeE1
        (idsBody [JStr (js ''E1''), JStr (js ''BAD_ID'')]))) = Some (2, 1, 1)
   \<and> failedIds (fst (batchRoute bareRuntime offlineService (\<lambda>_. stillWorld) storeE1
        (idsBody [JStr (js ''E1''), JStr (js ''BAD_ID'')]))) = [JStr (js ''BAD_ID'')]"
proof -
  have h: "getProp (idsBody [JStr (js ''E1''), JStr (js ''BAD_ID'')]) (js ''employeeIds'')
             = Some (JArr [JStr (js ''E1''), JStr (js ''BAD_ID'')])"
    "[JStr (js ''E1''), JStr (js ''BAD_ID'')] \<noteq> []"
    "list_all convertible [JStr (js ''E1''), JStr (js ''BAD_ID'')]"
    "storeConverts storeE1"
    "convertsOpt (getProp (idsBody [JStr (js ''E1''), JStr (js ''BAD_ID'')]) (js ''analysisType''))"
    "convertsOpt (getProp (idsBody [JStr (js ''E1''), JStr (js ''BAD_ID'')]) (js ''timeRange''))"
    by (simp_all add: idsBody_props storeE1_converts convertsOpt_def)
  show ?thesis
    using batch_counts [OF h, of bareRuntime offlineService "\<lambda>_. stillWorld"] h
    by (simp add: storeE1_ids)
qed

text \<open>
  C8, as stated, fails. The employee E1 of the second store is known, and its position is
  an object with a \<open>toString\<close> property of its own: the analysis of E1 throws, and the
  batch of E1 and an unknown id has no successful entry and two failed ones. And when an
  id of the list is such an object, the \<open>catch\<close> block of its pass throws itself: the
  route answers with status 500 and no summary, after the analysis of E1 was saved.
\<close>

theorem batch_counts_counterexample:
  "knownId storeOddE1 (JStr (js ''E1'')) \<and> \<not> knownId storeOddE1 (JStr (js ''BAD_ID''))
   \<and> (\<forall>rt svc ws.
        summaryOf (fst (batchRoute rt svc ws storeOddE1
                          (idsBody [JStr (js ''E1''), JStr (js ''BAD_ID'')])))
          = Some (2, 0, 2))
   \<and> (\<forall>rt ws.
        status (fst (batchRoute rt offlineService ws storeE1
                       (idsBody [JStr (js ''E1''), oddId]))) = 500
        \<and> summaryOf (fst (batchRoute rt offlineService ws storeE1
                            (idsBody [JStr (js ''E1''), oddId]))) = None
        \<and> length (logOf (snd (batchRoute rt offlineService ws storeE1
                                 (idsBody [JStr (js ''E1''), oddId])))) = 1)"
proof -
  have k: "knownId storeOddE1 (JStr (js ''E1''))" "\<not> knownId storeOddE1 (JStr (js ''BAD_ID''))"
    by (simp_all add: knownId_def knownEmployees_def getAllEmployees_def storeOddE1_def
        hasId_def get_def js_def)
  have a: "summaryOf (fst (batchRoute rt svc ws storeOddE1
                          (idsBody [JStr (js ''E1''), JStr (js ''BAD_ID'')])))
          = Some (2, 0, 2)" for rt svc ws
  proof -
    let ?fs1 = "storeOddE1"
    have t: "analyzeEmployee rt svc c
               (setProp (js ''timeRange'') (Some (JStr (js ''6months'')))
                  (setProp (js ''analysisType'') (Some (JStr (js ''comprehensive'')))
                     [(js ''id'', JStr (js ''E1'')), (js ''name'', JStr (js ''Ann'')),
                      (js ''position'', JObj [(js ''toString'', JNum (Fin 1))]),
                      (js ''department'', JStr (js ''R'')),
                      (js ''email'', JStr (js ''a@b.c''))]))
             = Inl TypeError" for c
      by (simp add: analyzeEmployee_def getMockEmployeeAnalysis_def buildEmployeePrompt_def
          setProp_def get_def interp_def toStr_def js_def)
    have p1: "batchPass rt svc (JStr (js ''comprehensive'')) (JStr (js ''6months'')) w storeOddE1
                (JStr (js ''E1'')) = (Inl TypeError, storeOddE1)" for w
      by (simp add: batchPass_def getEmployee_def getAllEmployees_def storeOddE1_def hasId_def
          t [unfolded get_def] get_def)
    have p2: "\<exists>e. batchPass rt svc (JStr (js ''comprehensive'')) (JStr (js ''6months'')) w storeOddE1
                (JStr (js ''BAD_ID'')) = (Inl e, storeOddE1)" for w
      by (simp add: batchPass_def getEmployee_def getAllEmployees_def storeOddE1_def hasId_def
          get_def toStr_def js_def)
    obtain e where p2': "batchPass rt svc (JStr (js ''comprehensive'')) (JStr (js ''6months''))
                (ws (Suc 0)) storeOddE1 (JStr (js ''BAD_ID'')) = (Inl e, storeOddE1)"
      using p2 by blast
    show ?thesis
      by (simp add: batchRoute_def idsBody_props p1 p2' toStr_def)
  qed
  have b: "status (fst (batchRoute rt offlineService ws storeE1
                       (idsBody [JStr (js ''E1''), oddId]))) = 500
        \<and> summaryOf (fst (batchRoute rt offlineService ws storeE1
                            (idsBody [JStr (js ''E1''), oddId]))) = None
        \<and> length (logOf (snd (batchRoute rt offlineService ws storeE1
                                 (idsBody [JStr (js ''E1''), oddId])))) = 1" for rt ws
  proof -
    obtain entry fs1 where
      p1: "batchPass rt offlineService (JStr (js ''comprehensive'')) (JStr (js ''6months'')) (ws 0)
             storeE1 (JStr (js ''E1'')) = (Inr entry, fs1)"
      and l1: "length (logOf fs1) = 1"
    proof -
      have g: "getEmployee rt storeE1 (JStr (js ''E1''))
                 = (Inr [(js ''id'', JStr (js ''E1'')), (js ''name'', JStr (js ''Ann''))], storeE1)"
        by (simp add: getEmployee_def getAllEmployees_def storeE1_def hasId_def get_def)
      have "fieldsConvert (setProp (js ''timeRange'') (Some (JStr (js ''6months'')))
                  (setProp (js ''analysisType'') (Some (JStr (js ''comprehensive'')))
                     [(js ''id'', JStr (js ''E1'')), (js ''name'', JStr (js ''Ann''))]))"
        by (simp add: fieldsConvert_def promptFields_def setProp_def get_def convertsOpt_def js_def)
      then have c: "convertsOpt (get (setProp (js ''timeRange'') (Some (JStr (js ''6months'')))
                  (setProp (js ''analysisType'') (Some (JStr (js ''comprehensive'')))
                     [(js ''id'', JStr (js ''E1'')), (js ''name'', JStr (js ''Ann''))])) (js ''name''))"
        "convertsOpt (get (setProp (js ''timeRange'') (Some (JStr (js ''6months'')))
                  (setProp (js ''analysisType'') (Some (JStr (js ''comprehensive'')))
                     [(js ''id'', JStr (js ''E1'')), (js ''name'', JStr (js ''Ann''))])) (js ''position''))"
        by (auto intro!: fieldsConvert_get simp: promptFields_def)
      obtain n where n: "interp rt (get (setProp (js ''timeRange'') (Some (JStr (js ''6months'')))
                  (setProp (js ''analysisType'') (Some (JStr (js ''comprehensive'')))
                     [(js ''id'', JStr (js ''E1'')), (js ''name'', JStr (js ''Ann''))])) (js ''name''))
            = Inr n"
        using c interp_converts by blast
      obtain r where r: "getMockEmployeeAnalysis rt
                            (setProp (js ''timeRange'') (Some (JStr (js ''6months'')))
                  (setProp (js ''analysisType'') (Some (JStr (js ''comprehensive'')))
                     [(js ''id'', JStr (js ''E1'')), (js ''name'', JStr (js ''Ann''))])) = Inr r"
        using mock_converts [OF c] by blast
      have a: "analyzeEmployee rt offlineService (provider (ws 0))
                 (setProp (js ''timeRange'') (Some (JStr (js ''6months'')))
                  (setProp (js ''analysisType'') (Some (JStr (js ''comprehensive'')))
                     [(js ''id'', JStr (js ''E1'')), (js ''name'', JStr (js ''Ann''))])) = Inr r"
        by (simp add: analyzeEmployee_def n offlineService_def r)
      let ?sv = "saveAnalysis storeE1 (uuid (ws 0)) (now (ws 0)) (js ''employee'')
                   (JStr (js ''E1'')) r
                   \<lparr>analysisType_x = Some (JStr (js ''comprehensive'')),
                    timeRange_x = Some (JStr (js ''6months'')),
                    requestId_x = None,
                    batchAnalysis_x = Some True\<rparr>"
      have bp: "batchPass rt offlineService (JStr (js ''comprehensive'')) (JStr (js ''6months''))
                  (ws 0) storeE1 (JStr (js ''E1''))
                = (Inr (JStr (js ''E1''), Some (JStr (js ''Ann'')), data r, source r), snd ?sv)"
        by (simp add: batchPass_def g a split_beta get_def) (simp add: js_def)
      have "length (logOf (snd ?sv)) = 1"
        by (simp add: saveAnalysis_def Let_def logOf_def storeE1_def)
      with bp show ?thesis by (rule that)
    qed
    have x: "\<not> hasId oddId emp" for emp
      by (simp add: hasId_def oddId_def split: option.splits)
    have f: "find (hasId oddId) xs = None" for xs
      by (simp add: find_None_iff x)
    have ts: "toStr rt oddId = Inl TypeError"
      by (simp add: toStr_def oddId_def)
    have p2: "batchPass rt offlineService (JStr (js ''comprehensive'')) (JStr (js ''6months'')) w
                fs1 oddId = (Inl TypeError, snd (getAllEmployees fs1))" for w
      by (simp add: batchPass_def getEmployee_def split_beta f ts)
    have l2: "logOf (snd (getAllEmployees fs1)) = logOf fs1"
      by (simp add: getAllEmployees_def logOf_def split: option.splits)
    show ?thesis
      by (simp add: batchRoute_def idsBody_props p1 p2 ts l1 l2)
  qed
  from k a b show ?thesis by blast
qed

section \<open>The prompt compiler\<close>















section \<open>Extraction\<close>

lemma lastClose_sound:
  "lastClose k s = Some n \<Longrightarrow> \<exists>p r. s = p @ rbrace # r \<and> length p = n \<and> k r"
proof (induction s arbitrary: n)
  case Nil
  then show ?case by simp
next
  case (Cons c cs)
  show ?case
  proof (cases "lastClose k cs")
    case None
    with Cons.prems have "c = rbrace" "k cs" "n = 0"
      by (auto split: if_splits)
    then show ?thesis by (intro exI [of _ "[]"] exI [of _ cs]) simp
  next
    case (Some m)
    with Cons.prems have n: "n = Suc m" by simp
    from Cons.IH [OF Some] obtain p r where "cs = p @ rbrace # r" "length p = m" "k r"
      by blast
    then show ?thesis using n by (intro exI [of _ "c # p"] exI [of _ r]) simp
  qed
qed

lemma lastClose_complete:
  "k r \<Longrightarrow> \<exists>n. lastClose k (p @ rbrace # r) = Some n \<and> length p \<le> n"
proof (induction p)
  case Nil
  then show ?case by (cases "lastClose k r") auto
next
  case (Cons c p)
  then obtain n where "lastClose k (p @ rbrace # r) = Some n" "length p \<le> n" by blast
  then show ?case by simp
qed

lemma lastClose_none: "rbrace \<notin> set s \<Longrightarrow> lastClose k s = None"
  by (induction s) auto

lemma lastClose_last:
  "rbrace \<notin> set post \<Longrightarrow> lastClose (\<lambda>_. True) (mid @ rbrace # post) = Some (length mid)"
  by (induction mid) (simp_all add: lastClose_none)

lemma objectAt_sound:
  "objectAt k s = Some m \<Longrightarrow> \<exists>inner r. s = m @ r \<and> m = lbrace # inner @ [rbrace] \<and> k r"
proof -
  assume a: "objectAt k s = Some m"
  then obtain b where s: "s = lbrace # b"
    by (cases s) (auto simp: objectAt_def split: if_splits)
  with a obtain n where n: "lastClose k b = Some n" and m: "m = lbrace # take (Suc n) b"
    by (auto simp: objectAt_def split: option.splits)
  from lastClose_sound [OF n] obtain p r where "b = p @ rbrace # r" "length p = n" "k r"
    by blast
  then show ?thesis using s m by (intro exI [of _ p] exI [of _ r]) simp
qed

lemma objectMatch_first_last:
  "lbrace \<notin> set pre \<Longrightarrow> rbrace \<notin> set post \<Longrightarrow>
   objectMatch (pre @ lbrace # mid @ rbrace # post) = Some (lbrace # mid @ [rbrace])"
proof (induction pre)
  case Nil
  then show ?case by (simp add: objectAt_def lastClose_last)
next
  case (Cons c pre)
  then show ?case by (simp add: objectAt_def)
qed

lemma objectMatch_none:
  "rbrace \<notin> set (dropWhile (\<lambda>c. c \<noteq> lbrace) s) \<Longrightarrow> objectMatch s = None"
proof (induction s)
  case Nil
  then show ?case by simp
next
  case (Cons c cs)
  show ?case
  proof (cases "c = lbrace")
    case True
    with Cons.prems have nr: "rbrace \<notin> set cs" by simp
    then have "rbrace \<notin> set (dropWhile (\<lambda>c. c \<noteq> lbrace) cs)"
      using set_dropWhileD by fastforce
    with Cons.IH nr True show ?thesis by (simp add: objectAt_def lastClose_none)
  next
    case False
    with Cons show ?thesis by (simp add: objectAt_def)
  qed
qed

lemma space_facts: "\<not> isSpace 96" "\<not> isSpace 106" "\<not> isSpace lbrace"
  by (simp_all add: isSpace_def lbrace_def)

lemma dropWhile_spaces:
  "list_all isSpace ws \<Longrightarrow> \<not> isSpace y \<Longrightarrow> dropWhile isSpace (ws @ y # ys) = y # ys"
  by (induction ws) auto

lemma closesFence_sound:
  "closesFence r \<Longrightarrow> \<exists>ws post. r = ws @ fence @ post \<and> list_all isSpace ws"
proof -
  assume "closesFence r"
  then obtain post where "dropWhile isSpace r = fence @ post"
    by (auto simp: closesFence_def prefix_def)
  then have "r = takeWhile isSpace r @ fence @ post"
    by (metis takeWhile_dropWhile_id)
  moreover have "list_all isSpace (takeWhile isSpace r)"
    by (simp add: list_all_iff) (meson set_takeWhileD)
  ultimately show ?thesis by blast
qed

lemma closesFence_complete: "list_all isSpace ws \<Longrightarrow> closesFence (ws @ fence @ post)"
  by (simp add: closesFence_def fence_def dropWhile_spaces space_facts)

lemma fenceAt_sound:
  "fenceAt s = Some g \<Longrightarrow>
   \<exists>tag ws1 inner ws2 post.
     s = fence @ tag @ ws1 @ g @ ws2 @ fence @ post
     \<and> (tag = [] \<or> tag = js ''json'') \<and> list_all isSpace ws1 \<and> list_all isSpace ws2
     \<and> g = lbrace # inner @ [rbrace]"
proof -
  assume a: "fenceAt s = Some g"
  then have pf: "prefix fence s" by (auto simp: fenceAt_def split: if_splits)
  then obtain r where s: "s = fence @ r" by (auto simp: prefix_def)
  then have r: "drop 3 s = r" by (simp add: fence_def)
  define r' where "r' = (if prefix (js ''json'') r then drop 4 r else r)"
  obtain tag where tag: "r = tag @ r'" "tag = [] \<or> tag = js ''json''"
  proof (cases "prefix (js ''json'') r")
    case True
    then obtain z where "r = js ''json'' @ z" by (auto simp: prefix_def)
    then have "r = js ''json'' @ r'" by (simp add: r'_def js_def)
    then show ?thesis using that by blast
  next
    case False
    then have "r = [] @ r'" by (simp add: r'_def)
    then show ?thesis using that by blast
  qed
  from a pf r have o: "objectAt closesFence (dropWhile isSpace r') = Some g"
    by (simp add: fenceAt_def r'_def Let_def)
  from objectAt_sound [OF o] obtain inner rest where
    b: "dropWhile isSpace r' = g @ rest" "g = lbrace # inner @ [rbrace]" "closesFence rest"
    by blast
  from closesFence_sound [OF b(3)] obtain ws2 post where
    c: "rest = ws2 @ fence @ post" "list_all isSpace ws2" by blast
  have "r' = takeWhile isSpace r' @ g @ rest"
    using b(1) by (metis takeWhile_dropWhile_id)
  moreover have "list_all isSpace (takeWhile isSpace r')"
    by (simp add: list_all_iff) (meson set_takeWhileD)
  ultimately show ?thesis
    using s tag b(2) c
    by (intro exI [of _ tag] exI [of _ "takeWhile isSpace r'"] exI [of _ inner]
        exI [of _ ws2] exI [of _ post]) auto
qed

lemma fencedMatch_sound:
  "fencedMatch content = Some g \<Longrightarrow> \<exists>pre s. content = pre @ s \<and> fenceAt s = Some g"
proof (induction content)
  case Nil
  then show ?case by simp
next
  case (Cons c cs)
  show ?case
  proof (cases "fenceAt (c # cs)")
    case None
    with Cons.prems have "fencedMatch cs = Some g" by simp
    from Cons.IH [OF this] obtain pre s where "cs = pre @ s" "fenceAt s = Some g" by blast
    then show ?thesis by (intro exI [of _ "c # pre"] exI [of _ s]) simp
  next
    case (Some h)
    with Cons.prems have "h = g" by simp
    with Some show ?thesis by (intro exI [of _ "[]"] exI [of _ "c # cs"]) simp
  qed
qed

lemma fencedMatch_complete:
  "fenceAt s \<noteq> None \<Longrightarrow> fencedMatch (pre @ s) \<noteq> None"
proof (induction pre)
  case Nil
  then show ?case by (cases s) (auto simp: fenceAt_def fence_def)
next
  case (Cons c pre)
  then show ?case by (cases "fenceAt (c # pre @ s)") auto
qed

lemma fenceAt_unfold:
  "fenceAt (fence @ r) =
     objectAt closesFence
       (dropWhile isSpace (if prefix (js ''json'') r then drop 4 r else r))"
  by (simp add: fenceAt_def fence_def Let_def)

lemma fenceAt_complete:
  assumes "tag = [] \<or> tag = js ''json''" "list_all isSpace ws1" "list_all isSpace ws2"
  shows "fenceAt (fence @ tag @ ws1 @ (lbrace # inner @ [rbrace]) @ ws2 @ fence @ post) \<noteq> None"
proof -
  define rest where "rest = lbrace # inner @ rbrace # ws2 @ fence @ post"
  have r': "(if prefix (js ''json'') (tag @ ws1 @ rest) then drop 4 (tag @ ws1 @ rest)
             else tag @ ws1 @ rest) = ws1 @ rest"
  proof (cases "tag = []")
    case True
    have "\<not> prefix (js ''json'') (ws1 @ rest)"
      using assms(2) space_facts by (cases ws1) (auto simp: js_def lbrace_def rest_def)
    with True show ?thesis by simp
  next
    case False
    with assms(1) have "tag = js ''json''" by simp
    then show ?thesis by (simp add: js_def)
  qed
  have dw: "dropWhile isSpace (ws1 @ rest) = rest"
    using assms(2) by (simp add: dropWhile_spaces space_facts rest_def)
  have "closesFence (ws2 @ fence @ post)"
    by (rule closesFence_complete [OF assms(3)])
  then obtain n where "lastClose closesFence (inner @ rbrace # ws2 @ fence @ post) = Some n"
    using lastClose_complete [of closesFence "ws2 @ fence @ post" inner] by blast
  then have o: "objectAt closesFence rest \<noteq> None"
    by (simp add: objectAt_def rest_def)
  have "fenceAt (fence @ (tag @ ws1 @ rest)) = objectAt closesFence rest"
    by (simp only: fenceAt_unfold r' dw)
  moreover have "fence @ tag @ ws1 @ (lbrace # inner @ [rbrace]) @ ws2 @ fence @ post
                 = fence @ (tag @ ws1 @ rest)"
    by (simp add: rest_def)
  ultimately show ?thesis using o by simp
qed

lemma objectAt_complete:
  assumes "k r"
  shows "\<exists>m. objectAt k (lbrace # inner @ rbrace # r) = Some m
            \<and> prefix (lbrace # inner @ [rbrace]) m"
proof -
  obtain n where n: "lastClose k (inner @ rbrace # r) = Some n" "length inner \<le> n"
    using lastClose_complete [of k r inner] assms by blast
  have "take (Suc (length inner)) (inner @ rbrace # r) = inner @ [rbrace]" by simp
  moreover have "prefix (take (Suc (length inner)) (inner @ rbrace # r))
                   (take (Suc n) (inner @ rbrace # r))"
    using n(2) by (metis Suc_le_mono take_is_prefix min.absorb_iff1 take_take)
  ultimately have "prefix (inner @ [rbrace]) (take (Suc n) (inner @ rbrace # r))" by simp
  then show ?thesis using n(1) by (simp add: objectAt_def)
qed

lemma fenceAt_longest:
  assumes "tag = [] \<or> tag = js ''json''" "list_all isSpace ws1" "list_all isSpace ws2"
  shows "\<exists>g. fenceAt (fence @ tag @ ws1 @ (lbrace # inner @ [rbrace]) @ ws2 @ fence @ post) = Some g
            \<and> prefix (lbrace # inner @ [rbrace]) g"
proof -
  define rest where "rest = lbrace # inner @ rbrace # ws2 @ fence @ post"
  have r': "(if prefix (js ''json'') (tag @ ws1 @ rest) then drop 4 (tag @ ws1 @ rest)
             else tag @ ws1 @ rest) = ws1 @ rest"
  proof (cases "tag = []")
    case True
    have "\<not> prefix (js ''json'') (ws1 @ rest)"
      using assms(2) space_facts by (cases ws1) (auto simp: js_def lbrace_def rest_def)
    with True show ?thesis by simp
  next
    case False
    with assms(1) have "tag = js ''json''" by simp
    then show ?thesis by (simp add: js_def)
  qed
  have dw: "dropWhile isSpace (ws1 @ rest) = rest"
    using assms(2) by (simp add: dropWhile_spaces space_facts rest_def)
  have "closesFence (ws2 @ fence @ post)"
    by (rule closesFence_complete [OF assms(3)])
  then obtain m where o: "objectAt closesFence rest = Some m"
    "prefix (lbrace # inner @ [rbrace]) m"
    using objectAt_complete [of closesFence "ws2 @ fence @ post" inner]
    unfolding rest_def by blast
  have "fenceAt (fence @ (tag @ ws1 @ rest)) = objectAt closesFence rest"
    by (simp only: fenceAt_unfold r' dw)
  moreover have "fence @ tag @ ws1 @ (lbrace # inner @ [rbrace]) @ ws2 @ fence @ post
                 = fence @ (tag @ ws1 @ rest)"
    by (simp add: rest_def)
  ultimately show ?thesis using o by simp
qed

lemma fencedMatch_first:
  "fencedMatch content = Some g \<Longrightarrow>
   \<exists>pre s. content = pre @ s \<and> fenceAt s = Some g
     \<and> (\<forall>pre' s'. content = pre' @ s' \<and> length pre' < length pre \<longrightarrow> fenceAt s' = None)"
proof (induction content)
  case Nil
  then show ?case by simp
next
  case (Cons c cs)
  show ?case
  proof (cases "fenceAt (c # cs)")
    case None
    with Cons.prems have "fencedMatch cs = Some g" by simp
    from Cons.IH [OF this] obtain pre s where
      p: "cs = pre @ s" "fenceAt s = Some g"
      and mn: "\<And>pre' s'. cs = pre' @ s' \<Longrightarrow> length pre' < length pre \<Longrightarrow> fenceAt s' = None"
      by blast
    have "fenceAt s' = None" if "c # cs = pre' @ s'" "length pre' < length (c # pre)" for pre' s'
    proof (cases pre')
      case Nil
      with that None show ?thesis by simp
    next
      case (Cons d pre'')
      with that have "cs = pre'' @ s'" "length pre'' < length pre" by simp_all
      then show ?thesis by (rule mn)
    qed
    with p show ?thesis by (intro exI [of _ "c # pre"] exI [of _ s]) simp
  next
    case (Some h)
    with Cons.prems have "h = g" by simp
    with Some show ?thesis by (intro exI [of _ "[]"] exI [of _ "c # cs"]) simp
  qed
qed

lemma fencedSpan_fenceAt:
  assumes "fencedSpan content pre g"
  shows "\<exists>s h. content = pre @ s \<and> fenceAt s = Some h \<and> prefix g h"
proof -
  from assms obtain tag ws1 inner ws2 post where
    c: "content = pre @ fence @ tag @ ws1 @ g @ ws2 @ fence @ post"
    and t: "tag = [] \<or> tag = js ''json''" "list_all isSpace ws1" "list_all isSpace ws2"
    and g: "g = lbrace # inner @ [rbrace]"
    unfolding fencedSpan_def by blast
  from fenceAt_longest [OF t, of inner post] obtain h where
    "fenceAt (fence @ tag @ ws1 @ (lbrace # inner @ [rbrace]) @ ws2 @ fence @ post) = Some h"
    "prefix (lbrace # inner @ [rbrace]) h"
    by blast
  then show ?thesis using c g by auto
qed

lemma fencedMatch_firstFencedSpan:
  assumes "fencedMatch content = Some g"
  shows "firstFencedSpan content g"
proof -
  from fencedMatch_first [OF assms] obtain pre s where
    c: "content = pre @ s" and f: "fenceAt s = Some g"
    and mn: "\<And>pre' s'. content = pre' @ s' \<Longrightarrow> length pre' < length pre \<Longrightarrow> fenceAt s' = None"
    by blast
  from fenceAt_sound [OF f] obtain tag ws1 inner ws2 post where
    "s = fence @ tag @ ws1 @ g @ ws2 @ fence @ post"
    "tag = [] \<or> tag = js ''json''" "list_all isSpace ws1" "list_all isSpace ws2"
    "g = lbrace # inner @ [rbrace]"
    by blast
  with c have sp: "fencedSpan content pre g" unfolding fencedSpan_def by blast
  have "length pre \<le> length pre' \<and> (length pre' = length pre \<longrightarrow> length g' \<le> length g)"
    if "fencedSpan content pre' g'" for pre' g'
  proof -
    from fencedSpan_fenceAt [OF that] obtain s' h where
      s': "content = pre' @ s'" "fenceAt s' = Some h" "prefix g' h" by blast
    have le: "length pre \<le> length pre'"
      using mn [OF s'(1)] s'(2) by (cases "length pre' < length pre") auto
    have "length g' \<le> length g" if "length pre' = length pre"
    proof -
      from that c s'(1) have "pre' = pre" "s' = s" by auto
      with s'(2) f have "h = g" by simp
      with s'(3) show ?thesis by (simp add: prefix_length_le)
    qed
    with le show ?thesis by blast
  qed
  with sp show ?thesis unfolding firstFencedSpan_def by blast
qed

lemma fencedSpan_fencedMatch:
  "fencedSpan content pre g \<Longrightarrow> \<exists>h. fencedMatch content = Some h"
proof -
  assume "fencedSpan content pre g"
  from fencedSpan_fenceAt [OF this] obtain s h where
    "content = pre @ s" "fenceAt s = Some h" by blast
  then have "fencedMatch content \<noteq> None" using fencedMatch_complete [of s pre] by simp
  then show ?thesis by blast
qed

lemma firstFencedSpan_unique:
  assumes "firstFencedSpan content g" "firstFencedSpan content h"
  shows "g = h"
proof -
  from assms(1) obtain pre where
    g: "fencedSpan content pre g"
    and gm: "\<And>pre' g'. fencedSpan content pre' g' \<Longrightarrow>
               length pre \<le> length pre' \<and> (length pre' = length pre \<longrightarrow> length g' \<le> length g)"
    unfolding firstFencedSpan_def by blast
  from assms(2) obtain pre0 where
    h: "fencedSpan content pre0 h"
    and hm: "\<And>pre' g'. fencedSpan content pre' g' \<Longrightarrow>
               length pre0 \<le> length pre' \<and> (length pre' = length pre0 \<longrightarrow> length g' \<le> length h)"
    unfolding firstFencedSpan_def by blast
  have len: "length pre = length pre0" using gm [OF h] hm [OF g] by simp
  have gh: "length g = length h" using gm [OF h] hm [OF g] len by simp
  from fencedSpan_fenceAt [OF g] obtain s m where
    s: "content = pre @ s" "fenceAt s = Some m" "prefix g m" by blast
  from fencedSpan_fenceAt [OF h] obtain s0 m0 where
    s0: "content = pre0 @ s0" "fenceAt s0 = Some m0" "prefix h m0" by blast
  from s(1) s0(1) len have "s = s0" by auto
  with s(2) s0(2) have "m = m0" by simp
  with s(3) s0(3) have "prefix g m" "prefix h m" by simp_all
  then obtain zg zh where "m = g @ zg" "m = h @ zh"
    unfolding prefix_def by blast
  then have "g @ zg = h @ zh" by simp
  with gh show ?thesis by simp
qed

lemma extractJSON_first:
  assumes "firstFencedSpan content g"
  shows "extractJSON content = g"
proof -
  from assms obtain pre where "fencedSpan content pre g"
    unfolding firstFencedSpan_def by blast
  from fencedSpan_fencedMatch [OF this] obtain h where h: "fencedMatch content = Some h" by blast
  from fencedMatch_firstFencedSpan [OF h] assms have "g = h"
    using firstFencedSpan_unique by blast
  with h show ?thesis by (simp add: extractJSON_def)
qed

lemma extractJSON_cases:
  "((\<exists>pre g. fencedSpan content pre g) \<longrightarrow> firstFencedSpan content (extractJSON content))
   \<and> (\<forall>g. firstFencedSpan content g \<longrightarrow> extractJSON content = g)
   \<and> (\<not> (\<exists>pre g. fencedSpan content pre g) \<and> content = pre @ lbrace # mid @ rbrace # post
        \<and> lbrace \<notin> set pre \<and> rbrace \<notin> set post
        \<longrightarrow> extractJSON content = lbrace # mid @ [rbrace])
   \<and> (\<not> (\<exists>pre g. fencedSpan content pre g)
        \<and> rbrace \<notin> set (dropWhile (\<lambda>c. c \<noteq> lbrace) content)
        \<longrightarrow> extractJSON content = content)"
proof -
  have a: "firstFencedSpan content (extractJSON content)" if "fencedSpan content p g" for p g
  proof -
    from fencedSpan_fencedMatch [OF that] obtain h where h: "fencedMatch content = Some h"
      by blast
    then have "extractJSON content = h" by (simp add: extractJSON_def)
    with fencedMatch_firstFencedSpan [OF h] show ?thesis by simp
  qed
  have n: "fencedMatch content = None" if "\<not> (\<exists>pre g. fencedSpan content pre g)"
  proof (cases "fencedMatch content")
    case (Some h)
    from fencedMatch_firstFencedSpan [OF this] that show ?thesis
      unfolding firstFencedSpan_def by blast
  qed simp
  have b: "extractJSON content = lbrace # mid @ [rbrace]"
    if "\<not> (\<exists>pre g. fencedSpan content pre g)" "content = pre @ lbrace # mid @ rbrace # post"
      "lbrace \<notin> set pre" "rbrace \<notin> set post"
    using n [OF that(1)] that(2) objectMatch_first_last [OF that(3,4), of mid]
    by (simp add: extractJSON_def)
  have c: "extractJSON content = content"
    if "\<not> (\<exists>pre g. fencedSpan content pre g)"
      "rbrace \<notin> set (dropWhile (\<lambda>c. c \<noteq> lbrace) content)"
    using n [OF that(1)] objectMatch_none [OF that(2)] by (simp add: extractJSON_def)
  from a b c extractJSON_first show ?thesis by blast
qed


text \<open>
  C6, as amended. When the text has a fenced span (a fence, optionally \<open>json\<close>, optional
  white space, a span from an opening brace to a closing brace, optional white space, a
  fence), \<open>extractJSON\<close> returns the fenced span that starts first and is the longest of
  those that start there, and nothing else is such a span. Otherwise, when a closing
  brace follows the first opening brace, it returns the text from the first opening brace
  to the last closing brace, balanced or not. Otherwise it returns the text unchanged.
\<close>

theorem extractJSON_order:
  "((\<exists>pre g. fencedSpan content pre g) \<longrightarrow> firstFencedSpan content (extractJSON content))
   \<and> (\<forall>g. firstFencedSpan content g \<longrightarrow> extractJSON content = g)
   \<and> (\<not> (\<exists>pre g. fencedSpan content pre g) \<and> content = pre @ lbrace # mid @ rbrace # post
        \<and> lbrace \<notin> set pre \<and> rbrace \<notin> set post
        \<longrightarrow> extractJSON content = lbrace # mid @ [rbrace])
   \<and> (\<not> (\<exists>pre g. fencedSpan content pre g)
        \<and> rbrace \<notin> set (dropWhile (\<lambda>c. c \<noteq> lbrace) content)
        \<longrightarrow> extractJSON content = content)"
  by (rule extractJSON_cases)

lemma twoObjects_eval:
  "fencedMatch twoObjects = None"
  "extractJSON twoObjects = twoObjects"
  "firstBalancedSpan twoObjects = Some (js ''{a:1}'')"
  "\<not> includes_js twoObjects fence"
  by (simp_all add: twoObjects_def js_def extractJSON_def fenceAt_def fence_def objectAt_def
      lbrace_def rbrace_def)

lemma fencedReply_eval:
  "fencedMatch fencedReply = Some (js ''{a:1}'')"
  by (simp add: fencedReply_def js_def fenceAt_def fence_def objectAt_def closesFence_def
      isSpace_def lbrace_def rbrace_def)

lemma twoFences_eval:
  "fencedMatch twoFences = Some (js ''{a}``` and ```{b}'')"
  "firstBlock twoFences = Some (js ''{a}'')"
  by (simp_all add: twoFences_def js_def fenceAt_def fence_def objectAt_def closesFence_def
      isSpace_def lbrace_def rbrace_def)

theorem extractJSON_order_witness:
  "(\<exists>pre g. fencedSpan fencedReply pre g)
   \<and> firstFencedSpan fencedReply (extractJSON fencedReply)
   \<and> extractJSON fencedReply = js ''{a:1}''
   \<and> \<not> (\<exists>pre g. fencedSpan twoObjects pre g)
   \<and> twoObjects = [] @ lbrace # js ''a:1} or {b:2'' @ rbrace # []
   \<and> lbrace \<notin> set [] \<and> rbrace \<notin> set []
   \<and> extractJSON twoObjects = lbrace # js ''a:1} or {b:2'' @ [rbrace]
   \<and> \<not> (\<exists>pre g. fencedSpan (js ''no object'') pre g)
   \<and> rbrace \<notin> set (dropWhile (\<lambda>c. c \<noteq> lbrace) (js ''no object''))
   \<and> extractJSON (js ''no object'') = js ''no object''"
proof -
  have f: "\<exists>pre g. fencedSpan fencedReply pre g"
    using fencedMatch_firstFencedSpan [OF fencedReply_eval] unfolding firstFencedSpan_def by blast
  have e: "extractJSON fencedReply = js ''{a:1}''"
    by (simp add: extractJSON_def fencedReply_eval)
  have n: "\<not> (\<exists>pre g. fencedSpan twoObjects pre g)"
    using fencedSpan_fencedMatch [of twoObjects] twoObjects_eval(1) by auto
  have d: "twoObjects = [] @ lbrace # js ''a:1} or {b:2'' @ rbrace # []"
    by (simp add: twoObjects_def js_def lbrace_def rbrace_def)
  have s: "lbrace \<notin> set []" "rbrace \<notin> set []" by simp_all
  from extractJSON_order [of fencedReply] f
  have "firstFencedSpan fencedReply (extractJSON fencedReply)" by blast
  moreover from extractJSON_order [of twoObjects "[]" "js ''a:1} or {b:2''" "[]"] n d s
  have "extractJSON twoObjects = lbrace # js ''a:1} or {b:2'' @ [rbrace]" by blast
  moreover have p: "\<not> (\<exists>pre g. fencedSpan (js ''no object'') pre g)"
    "rbrace \<notin> set (dropWhile (\<lambda>c. c \<noteq> lbrace) (js ''no object''))"
  proof -
    have "fencedMatch (js ''no object'') = None"
      by (simp add: js_def fenceAt_def fence_def)
    then show "\<not> (\<exists>pre g. fencedSpan (js ''no object'') pre g)"
      using fencedSpan_fencedMatch [of "js ''no object''"] by auto
    show "rbrace \<notin> set (dropWhile (\<lambda>c. c \<noteq> lbrace) (js ''no object''))"
      by (simp add: js_def lbrace_def rbrace_def)
  qed
  moreover from extractJSON_order [of "js ''no object''"] p
  have "extractJSON (js ''no object'') = js ''no object''" by blast
  ultimately show ?thesis using f e n d s by blast
qed

text \<open>
  C6, as stated, fails. In a reply with two fenced blocks, the contents of the first
  block is the first object, and \<open>extractJSON\<close> returns the text from the opening brace of
  the first block to the closing brace of the last one, the two fences between them
  included. In a reply with two object literals and no fence, the first balanced span is
  the first object, and \<open>extractJSON\<close> returns the whole text from the first opening brace
  to the last closing brace.
\<close>

theorem extractJSON_first_balanced_counterexample:
  "firstBlock twoFences = Some (js ''{a}'')
   \<and> extractJSON twoFences = js ''{a}``` and ```{b}''
   \<and> includes_js (extractJSON twoFences) fence
   \<and> \<not> includes_js twoObjects fence
   \<and> firstBalancedSpan twoObjects = Some (js ''{a:1}'')
   \<and> extractJSON twoObjects = js ''{a:1} or {b:2}''
   \<and> extractJSON twoObjects \<noteq> js ''{a:1}''"
proof -
  have "extractJSON twoFences = js ''{a}``` and ```{b}''"
    by (simp add: extractJSON_def twoFences_eval)
  moreover have "includes_js (js ''{a}``` and ```{b}'') fence"
    by (simp add: js_def fence_def)
  moreover have "extractJSON twoObjects = js ''{a:1} or {b:2}''"
    "extractJSON twoObjects \<noteq> js ''{a:1}''"
    by (simp_all add: twoObjects_eval) (simp_all add: twoObjects_def js_def)
  ultimately show ?thesis by (simp add: twoFences_eval twoObjects_eval)
qed

end
